theory Spec2Isabelle
  imports Complex_Main "HOL-Library.AList"
begin

section \<open>Python exceptions\<close>

text \<open>
  Exceptions are values. An exception object carries its class, its message and the
  exception it was raised \<^verbatim>\<open>from\<close> (\<^verbatim>\<open>__cause__\<close>). The classes are the built-in
  ones the sources can meet and the error classes of \<^verbatim>\<open>fmf.utils\<close> named by the
  sources and their tests.
\<close>

datatype exc_class =
    BaseException
  | SystemExit
  | KeyboardInterrupt
  | GeneratorExit
  | Exception
  | AssertionError
  | TypeError
  | IndexError
  | KeyError
  | OSError
  | NameError
  | GeneralError
  | FormatError
  | FileError
  | FilterError

datatype exc = Exc (exc_cls: exc_class) (exc_msg: string) (exc_cause: "exc option")

text \<open>
  \<^verbatim>\<open>issubclass(c, Exception)\<close>: of the built-in classes, \<^verbatim>\<open>BaseException\<close>,
  \<^verbatim>\<open>SystemExit\<close>, \<^verbatim>\<open>KeyboardInterrupt\<close> and \<^verbatim>\<open>GeneratorExit\<close> are outside
  \<^verbatim>\<open>Exception\<close>. \<^verbatim>\<open>GeneralError\<close> and its subclasses \<^verbatim>\<open>FormatError\<close>,
  \<^verbatim>\<open>FileError\<close>, \<^verbatim>\<open>FilterError\<close> are ordinary exceptions.
\<close>

fun is_Exception :: "exc_class \<Rightarrow> bool" where
  "is_Exception BaseException = False"
| "is_Exception SystemExit = False"
| "is_Exception KeyboardInterrupt = False"
| "is_Exception GeneratorExit = False"
| "is_Exception _ = True"

section \<open>Raw data (\<^verbatim>\<open>fmf/typing.py\<close>)\<close>

text \<open>
  \<^verbatim>\<open>DataType = Union[RawDataType, ListDataType, DictDataType]\<close> with
  \<^verbatim>\<open>RawDataType = Union[None, int, float, str, bool]\<close>. A dictionary is kept as an
  association list, in insertion order.
\<close>

datatype DataType =
    DNone
  | DInt int
  | DFloat real
  | DStr string
  | DBool bool
  | DList "DataType list"
  | DDict "(string \<times> DataType) list"

fun isinstance_list :: "DataType \<Rightarrow> bool" where
  "isinstance_list (DList _) = True"
| "isinstance_list _ = False"

text \<open>\<^verbatim>\<open>TreeData = dict[str, DataType]\<close>, the attributes of a node.\<close>

type_synonym tree_data = "(string \<times> DataType) list"

section \<open>\<^verbatim>\<open>normalize\<close> (\<^verbatim>\<open>fmf/normalize.py\<close>)\<close>

text \<open>
  The first argument of \<^verbatim>\<open>normalize\<close> is a type: a class, or a
  \<^verbatim>\<open>types.GenericAlias\<close> such as \<^verbatim>\<open>list[T]\<close> with its \<^verbatim>\<open>__origin__\<close> and
  \<^verbatim>\<open>__args__\<close>.
\<close>

datatype pytype =
    Builtin_list
  | Class string
  | GenericAlias pytype "pytype list"

text \<open>\<^verbatim>\<open>normalize\<close> returns one object, or a list of objects.\<close>

datatype 'o normalized = Obj 'o | Objs "'o list"

text \<open>
  A list comprehension \<^verbatim>\<open>[f(d) for d in data]\<close>: the elements are converted from
  left to right and the first exception ends the comprehension.
\<close>

fun comprehension :: "('d \<Rightarrow> exc + 'o) \<Rightarrow> 'd list \<Rightarrow> exc + 'o list" where
  "comprehension f [] = Inr []"
| "comprehension f (d # ds) =
     (case f d of
        Inl e \<Rightarrow> Inl e
      | Inr y \<Rightarrow> (case comprehension f ds of Inl e \<Rightarrow> Inl e | Inr ys \<Rightarrow> Inr (y # ys)))"

text \<open>
  \<^verbatim>\<open>def normalize(cls, data, *args, normalizer=None, **kwargs)\<close>. Calling a class
  (\<^verbatim>\<open>cls(data, *args, **kwargs)\<close>) is the parameter \<open>call_cls\<close>; \<open>args\<close> stands for
  \<^verbatim>\<open>*args, **kwargs\<close>, handed on unchanged. \<^verbatim>\<open>cls.__args__[0]\<close> raises
  \<^verbatim>\<open>IndexError\<close> on an alias without arguments.
\<close>

definition normalize ::
  "(pytype \<Rightarrow> DataType \<Rightarrow> 'a \<Rightarrow> exc + 'o) \<Rightarrow> pytype \<Rightarrow> DataType \<Rightarrow> 'a \<Rightarrow>
   (DataType \<Rightarrow> 'a \<Rightarrow> exc + 'o) option \<Rightarrow> exc + 'o normalized" where
  "normalize call_cls cls data args normalizer =
     (let plain =
        (case normalizer of
           Some n \<Rightarrow> map_sum id Obj (n data args)
         | None \<Rightarrow> map_sum id Obj (call_cls cls data args))
      in case cls of
        GenericAlias origin targs \<Rightarrow>
          if origin = Builtin_list then
            (let data' = (if \<not> isinstance_list data then [data]
                          else (case data of DList xs \<Rightarrow> xs | _ \<Rightarrow> []))
             in case normalizer of
               Some n \<Rightarrow> map_sum id Objs (comprehension (\<lambda>d. n d args) data')
             | None \<Rightarrow>
                 (case targs of
                    [] \<Rightarrow> Inl (Exc IndexError ''tuple index out of range'' None)
                  | obj_cls # _ \<Rightarrow>
                      map_sum id Objs (comprehension (\<lambda>d. call_cls obj_cls d args) data')))
          else plain
      | _ \<Rightarrow> plain)"

text \<open>The conversion \<^verbatim>\<open>normalize\<close> applies to one element of a \<^verbatim>\<open>list[T]\<close> target.\<close>

definition element_conversion ::
  "(pytype \<Rightarrow> DataType \<Rightarrow> 'a \<Rightarrow> exc + 'o) \<Rightarrow> pytype \<Rightarrow> 'a \<Rightarrow>
   (DataType \<Rightarrow> 'a \<Rightarrow> exc + 'o) option \<Rightarrow> DataType \<Rightarrow> exc + 'o" where
  "element_conversion call_cls T args normalizer d =
     (case normalizer of Some n \<Rightarrow> n d args | None \<Rightarrow> call_cls T d args)"

text \<open>
  An element class for examples: \<^verbatim>\<open>int(d)\<close> restricted to integers, raising
  \<^verbatim>\<open>TypeError\<close> on everything else.
\<close>

definition int_of_data :: "pytype \<Rightarrow> DataType \<Rightarrow> unit \<Rightarrow> exc + int" where
  "int_of_data T d u =
     (case d of DInt n \<Rightarrow> Inr n | _ \<Rightarrow> Inl (Exc TypeError ''int() argument'' None))"

section \<open>The command line (\<^verbatim>\<open>fmf/cli.py\<close>)\<close>

subsection \<open>\<^verbatim>\<open>CatchAllExceptions.__call__\<close>\<close>

text \<open>
  \<^verbatim>\<open>try: return self.main(*args, **kwargs)\<close>,
  \<^verbatim>\<open>except Exception as err: raise GeneralError("fmf cli command failed") from err\<close>.
  The clause catches instances of \<^verbatim>\<open>Exception\<close> only; anything else that
  \<^verbatim>\<open>self.main\<close> raises leaves \<^verbatim>\<open>__call__\<close> as it is.
\<close>

definition CatchAllExceptions_call :: "('args \<Rightarrow> exc + 'r) \<Rightarrow> 'args \<Rightarrow> exc + 'r" where
  "CatchAllExceptions_call self_main args =
     (case self_main args of
        Inr r \<Rightarrow> Inr r
      | Inl err \<Rightarrow>
          if is_Exception (exc_cls err)
          then Inl (Exc GeneralError ''fmf cli command failed'' (Some err))
          else Inl err)"

subsection \<open>\<^verbatim>\<open>cd\<close>\<close>

text \<open>
  The state of the process: its working directory, the directories it can enter, and
  everything else. Paths are identified with the directories they name.
  \<^verbatim>\<open>os.chdir\<close> raises \<^verbatim>\<open>OSError\<close> on a path that is not such a directory and
  \<^verbatim>\<open>os.getcwd\<close> raises it when the working directory is gone.
\<close>

record 'x process =
  cwd :: string
  dirs :: "string set"
  other :: 'x

definition getcwd :: "'x process \<Rightarrow> exc + string" where
  "getcwd s =
     (if cwd s \<in> dirs s then Inr (cwd s)
      else Inl (Exc OSError ''getcwd: no such file or directory'' None))"

definition chdir :: "string \<Rightarrow> 'x process \<Rightarrow> exc + 'x process" where
  "chdir target s =
     (if target \<in> dirs s then Inr (s\<lparr>cwd := target\<rparr>)
      else Inl (Exc OSError ''chdir: no such file or directory'' None))"

text \<open>
  The body of a \<^verbatim>\<open>with cd(target):\<close> statement runs on the state and ends normally
  (\<open>None\<close>) or by raising (\<open>Some e\<close>). The generator runs \<^verbatim>\<open>curdir = getcwd()\<close>,
  \<^verbatim>\<open>chdir(target)\<close>, the body at \<^verbatim>\<open>yield\<close>, and \<^verbatim>\<open>chdir(curdir)\<close> in the
  \<^verbatim>\<open>finally\<close> clause; an exception of the \<^verbatim>\<open>finally\<close> clause replaces the body's.
\<close>

definition cd ::
  "string \<Rightarrow> ('x process \<Rightarrow> exc option \<times> 'x process) \<Rightarrow> 'x process \<Rightarrow>
   exc option \<times> 'x process" where
  "cd target body s =
     (case getcwd s of
        Inl e \<Rightarrow> (Some e, s)
      | Inr curdir \<Rightarrow>
          (case chdir target s of
             Inl e \<Rightarrow> (Some e, s)
           | Inr s1 \<Rightarrow>
               (case body s1 of
                  (raised, s2) \<Rightarrow>
                    (case chdir curdir s2 of
                       Inl e \<Rightarrow> (Some e, s2)
                     | Inr s3 \<Rightarrow> (raised, s3)))))"

subsection \<open>\<^verbatim>\<open>_show\<close>\<close>

text \<open>
  \<^verbatim>\<open>ctx.obj\<close> holds \<^verbatim>\<open>verbose\<close> and the \<^verbatim>\<open>debug\<close> count; \<^verbatim>\<open>format_opts\<close> is the
  dictionary \<^verbatim>\<open>{'formatting': ..., 'values': ...}\<close> built by \<^verbatim>\<open>_format_options\<close>, or
  \<^verbatim>\<open>None\<close> (the \<^verbatim>\<open>ls\<close> command passes none).
\<close>

record ctx_obj =
  verbose :: bool
  debug :: nat

record format_opts =
  formatting :: "string option"
  format_values :: "string list"

text \<open>
  What \<^verbatim>\<open>_show\<close> calls and this repository's files do not define is a parameter:
  the constructor \<^verbatim>\<open>Tree(str(p))\<close>, the generator \<^verbatim>\<open>tree.prune(**select_opts)\<close>
  (the nodes it yields and the exception that ends it, if any), \<^verbatim>\<open>node.show\<close>,
  \<^verbatim>\<open>node.sources\<close>, and \<^verbatim>\<open>color\<close> and \<^verbatim>\<open>listed\<close> of \<^verbatim>\<open>fmf.utils\<close>.
\<close>

record ('t, 'n, 's) fmf_api =
  Tree :: "string \<Rightarrow> exc + 't"
  prune :: "'t \<Rightarrow> 's \<Rightarrow> 'n list \<times> exc option"
  node_show :: "'n \<Rightarrow> bool \<Rightarrow> format_opts option \<Rightarrow> exc + string option"
  node_sources :: "'n \<Rightarrow> string list"
  color :: "string \<Rightarrow> string \<Rightarrow> string"
  listed :: "nat \<Rightarrow> string \<Rightarrow> string"

text \<open>What a command leaves behind: the text echoed, the \<^verbatim>\<open>info\<close> lines, the exception.\<close>

record outcome =
  stdout :: string
  stderr :: "string list"
  raised :: "exc option"

text \<open>The line terminator, and \<^verbatim>\<open>sep.join(output)\<close>.\<close>

definition newline :: string where
  "newline = [CHR 0x0A]"

fun join :: "string \<Rightarrow> string list \<Rightarrow> string" where
  "join sep [] = []"
| "join sep [x] = x"
| "join sep (x # y # ys) = x @ sep @ join sep (y # ys)"

text \<open>
  \<^verbatim>\<open>for source in node.sources: show_out += color(f"{source}\n", "blue")\<close>; adding a
  string to \<^verbatim>\<open>None\<close> raises \<^verbatim>\<open>TypeError\<close>.
\<close>

fun add_sources ::
  "('t, 'n, 's) fmf_api \<Rightarrow> string list \<Rightarrow> string option \<Rightarrow> exc + string option" where
  "add_sources api [] show_out = Inr show_out"
| "add_sources api (source # rest) show_out =
     (case show_out of
        None \<Rightarrow> Inl (Exc TypeError ''unsupported operand type(s) for +='' None)
      | Some out \<Rightarrow> add_sources api rest (Some (out @ color api (source @ newline) ''blue'')))"

text \<open>The body of the loop over the nodes, up to the test \<^verbatim>\<open>show_out is not None\<close>.\<close>

definition show_node ::
  "('t, 'n, 's) fmf_api \<Rightarrow> ctx_obj \<Rightarrow> format_opts option \<Rightarrow> bool \<Rightarrow> 'n \<Rightarrow>
   exc + string option" where
  "show_node api ctx fopts brief node =
     (case (if brief then node_show api node True None
            else (case fopts of
                    None \<Rightarrow> Inl (Exc AssertionError [] None)
                  | Some f \<Rightarrow> node_show api node False (Some f))) of
        Inl e \<Rightarrow> Inl e
      | Inr show_out \<Rightarrow>
          if debug ctx \<noteq> 0 then add_sources api (node_sources api node) show_out
          else Inr show_out)"

text \<open>
  \<^verbatim>\<open>for node in tree.prune(**select_opts)\<close>: the nodes in turn, then the exception
  of the generator if it ends with one.
\<close>

fun show_nodes ::
  "('t, 'n, 's) fmf_api \<Rightarrow> ctx_obj \<Rightarrow> format_opts option \<Rightarrow> bool \<Rightarrow>
   'n list \<Rightarrow> exc option \<Rightarrow> string list \<Rightarrow> exc + string list" where
  "show_nodes api ctx fopts brief [] ended output =
     (case ended of None \<Rightarrow> Inr output | Some e \<Rightarrow> Inl e)"
| "show_nodes api ctx fopts brief (node # nodes) ended output =
     (case show_node api ctx fopts brief node of
        Inl e \<Rightarrow> Inl e
      | Inr None \<Rightarrow> show_nodes api ctx fopts brief nodes ended output
      | Inr (Some show_out) \<Rightarrow>
          show_nodes api ctx fopts brief nodes ended (output @ [show_out]))"

text \<open>
  \<^verbatim>\<open>for p in paths\<close>: the state is the \<^verbatim>\<open>info\<close> lines written so far and the list
  \<^verbatim>\<open>output\<close>. Nothing catches an exception, so the first one ends the loop.
\<close>

fun show_paths ::
  "('t, 'n, 's) fmf_api \<Rightarrow> ctx_obj \<Rightarrow> 's \<Rightarrow> format_opts option \<Rightarrow> bool \<Rightarrow>
   string list \<Rightarrow> string list \<times> string list \<Rightarrow> string list \<times> (exc + string list)" where
  "show_paths api ctx select_opts fopts brief [] (infos, output) = (infos, Inr output)"
| "show_paths api ctx select_opts fopts brief (p # paths) (infos, output) =
     (let infos' = (if verbose ctx then infos @ [''Checking '' @ p @ '' for metadata.'']
                    else infos)
      in case Tree api p of
        Inl e \<Rightarrow> (infos', Inl e)
      | Inr tree \<Rightarrow>
          (case prune api tree select_opts of
             (nodes, ended) \<Rightarrow>
               (case show_nodes api ctx fopts brief nodes ended output of
                  Inl e \<Rightarrow> (infos', Inl e)
                | Inr output' \<Rightarrow>
                    show_paths api ctx select_opts fopts brief paths (infos', output'))))"

text \<open>
  The truth value of \<^verbatim>\<open>format_opts and format_opts['formatting']\<close>: \<^verbatim>\<open>None\<close> and the
  empty string are false.
\<close>

definition formatting_given :: "format_opts option \<Rightarrow> bool" where
  "formatting_given fopts =
     (case fopts of
        None \<Rightarrow> False
      | Some f \<Rightarrow> (case formatting f of None \<Rightarrow> False | Some template \<Rightarrow> template \<noteq> []))"

text \<open>\<^verbatim>\<open>_show(ctx, paths, select_opts, format_opts=None, brief=False)\<close>.\<close>

definition cli_show ::
  "('t, 'n, 's) fmf_api \<Rightarrow> ctx_obj \<Rightarrow> string list \<Rightarrow> 's \<Rightarrow> format_opts option \<Rightarrow> bool \<Rightarrow>
   outcome" where
  "cli_show api ctx paths select_opts fopts brief =
     (case show_paths api ctx select_opts fopts brief paths ([], []) of
        (infos, Inl e) \<Rightarrow> \<lparr>stdout = [], stderr = infos, raised = Some e\<rparr>
      | (infos, Inr output) \<Rightarrow>
          (let joined = (if brief \<or> formatting_given fopts then concat output
                         else join newline output)
           in \<lparr>stdout = joined,
               stderr = (if verbose ctx
                         then infos @ [''Found '' @ listed api (length output) ''object'' @ ''.'']
                         else infos),
               raised = None\<rparr>))"

subsection \<open>\<^verbatim>\<open>init\<close>\<close>

text \<open>
  \<^verbatim>\<open>for p in paths: root = Tree.init(str(p)); click.echo(...)\<close>. \<^verbatim>\<open>Tree.init\<close> is a
  parameter acting on the file system; the state is the file system and the lines
  echoed.
\<close>

fun init ::
  "('fs \<Rightarrow> string \<Rightarrow> exc + string \<times> 'fs) \<Rightarrow> string list \<Rightarrow> 'fs \<times> string list \<Rightarrow>
   exc option \<times> 'fs \<times> string list" where
  "init Tree_init [] (fs, echoed) = (None, fs, echoed)"
| "init Tree_init (p # paths) (fs, echoed) =
     (case Tree_init fs p of
        Inl e \<Rightarrow> (Some e, fs, echoed)
      | Inr (tree_root, fs') \<Rightarrow>
          init Tree_init paths
            (fs', echoed @ [''Metadata tree '' @ [CHR 0x27] @ tree_root @ [CHR 0x27]
                             @ '' successfully initialized.'']))"

section \<open>The tree engine\<close>

text \<open>
  The engine behind \<^verbatim>\<open>Tree\<close> (\<^verbatim>\<open>fmf.base\<close>) is not among the sources; what follows
  is its contract as the specification words it.
\<close>

subsection \<open>The merge of a child's raw data into its parent's data\<close>

text \<open>
  Modelled from the spec: the marker suffixes of the merge engine, whose code is
  missing. A child key ending in \<^verbatim>\<open>+\<close> carries the append marker, one ending in
  \<^verbatim>\<open>-\<close> the remove marker.
\<close>

datatype marker = Plain | Append | Remove

text \<open>
  Modelled from the spec: resolving the marker of a child key (missing code): the key
  without its suffix, and the marker the suffix stands for. Markers are resolved
  before the key is matched against the parent's keys.
\<close>

definition key_marker :: "string \<Rightarrow> string \<times> marker" where
  "key_marker k =
     (if k \<noteq> [] \<and> last k = CHR ''+'' then (butlast k, Append)
      else if k \<noteq> [] \<and> last k = CHR ''-'' then (butlast k, Remove)
      else (k, Plain))"

text \<open>
  Modelled from the spec: the elements a child lists under a remove marker (missing
  code); a value that is not a sequence lists itself.
\<close>

fun listed_elements :: "DataType \<Rightarrow> DataType list" where
  "listed_elements (DList xs) = xs"
| "listed_elements v = [v]"

text \<open>
  Modelled from the spec: \<^verbatim>\<open>merge(parentData, childRaw) -> childResolved\<close>, whose
  code is missing. The child's entries are applied in turn. A key only in the parent
  is inherited, a key only in the child is taken as it is. For a key in both: with
  the append marker and two sequences the result is the parent's sequence followed by
  the child's; with the remove marker it is the parent's sequence without the
  elements the child lists, and a parent value that is not a sequence is deleted;
  two mappings are merged recursively; otherwise the child's value replaces the
  parent's.
\<close>

fun merge :: "tree_data \<Rightarrow> tree_data \<Rightarrow> tree_data" where
  "merge parent [] = parent"
| "merge parent ((k, v) # rest) =
     merge
       (case key_marker k of
          (key, m) \<Rightarrow>
            (case map_of parent key of
               None \<Rightarrow> AList.update key v parent
             | Some pv \<Rightarrow>
                 if m = Append \<and> isinstance_list pv \<and> isinstance_list v
                 then AList.update key (DList (listed_elements pv @ listed_elements v)) parent
                 else if m = Remove
                 then (case pv of
                         DList ps \<Rightarrow>
                           AList.update key
                             (DList (filter (\<lambda>x. x \<notin> set (listed_elements v)) ps)) parent
                       | _ \<Rightarrow> AList.delete key parent)
                 else (case pv of
                         DDict pd \<Rightarrow>
                           (case v of
                              DDict chd \<Rightarrow> AList.update key (DDict (merge pd chd)) parent
                            | _ \<Rightarrow> AList.update key v parent)
                       | _ \<Rightarrow> AList.update key v parent)))
       rest"

subsection \<open>Nodes and selection\<close>

text \<open>
  Modelled from the spec: the node of the tree index (missing code) with its path, its
  resolved data, its sources and its children in discovery order.
\<close>

datatype tree =
  Node (path_of: string) (data_of: tree_data) (sources_of: "string list")
    (children_of: "tree list")

text \<open>
  Modelled from the spec: a leaf is a node without children (missing code).
\<close>

definition is_leaf :: "tree \<Rightarrow> bool" where
  "is_leaf n = (children_of n = [])"

text \<open>
  Modelled from the spec: the pre-order listing of the tree index (missing code): a node before
  its children, the children in discovery order.
\<close>

fun preorder :: "tree \<Rightarrow> tree list" where
  "preorder (Node p d s cs) = Node p d s cs # concat (map preorder cs)"

text \<open>Modelled from the spec: the selection request (missing code).\<close>

record criteria =
  keys :: "string list"
  names :: "string list"
  crit_sources :: "string list"
  filters :: "string list"
  conditions :: "string list"
  whole :: bool

text \<open>
  Modelled from the spec: the expressions of conditions (missing code), restricted to
  attribute names, constants, indexing and equality, evaluated with the node's data
  as the namespace. An absent name raises \<^verbatim>\<open>NameError\<close>, an absent dictionary key
  \<^verbatim>\<open>KeyError\<close>, an index out of range \<^verbatim>\<open>IndexError\<close>, indexing anything else
  \<^verbatim>\<open>TypeError\<close>.
\<close>

datatype expr =
    Name string
  | Const DataType
  | Subscript expr expr
  | Equal expr expr

text \<open>
  Modelled from the spec: indexing a dictionary by a key or a sequence by a position, negative
  positions counting from the end (missing code).
\<close>

fun subscript :: "DataType \<Rightarrow> DataType \<Rightarrow> exc + DataType" where
  "subscript (DDict d) (DStr k) =
     (case map_of d k of None \<Rightarrow> Inl (Exc KeyError k None) | Some v \<Rightarrow> Inr v)"
| "subscript (DDict d) i = Inl (Exc KeyError [] None)"
| "subscript (DList xs) (DInt i) =
     (let j = (if i < 0 then int (length xs) + i else i)
      in if 0 \<le> j \<and> j < int (length xs) then Inr (xs ! nat j)
         else Inl (Exc IndexError ''list index out of range'' None))"
| "subscript v i = Inl (Exc TypeError ''object is not subscriptable'' None)"

text \<open>
  Modelled from the spec: evaluating a condition with the node's data as the namespace (missing
  code); the first error ends the evaluation.
\<close>

fun eval_expr :: "tree_data \<Rightarrow> expr \<Rightarrow> exc + DataType" where
  "eval_expr d (Name x) =
     (case map_of d x of None \<Rightarrow> Inl (Exc NameError x None) | Some v \<Rightarrow> Inr v)"
| "eval_expr d (Const v) = Inr v"
| "eval_expr d (Subscript a i) =
     (case eval_expr d a of
        Inl e \<Rightarrow> Inl e
      | Inr va \<Rightarrow> (case eval_expr d i of Inl e \<Rightarrow> Inl e | Inr vi \<Rightarrow> subscript va vi))"
| "eval_expr d (Equal a b) =
     (case eval_expr d a of
        Inl e \<Rightarrow> Inl e
      | Inr va \<Rightarrow> (case eval_expr d b of Inl e \<Rightarrow> Inl e | Inr vb \<Rightarrow> Inr (DBool (va = vb))))"

text \<open>
  Modelled from the spec: the truth value of the result of a condition (missing code).
\<close>

fun truthy :: "DataType \<Rightarrow> bool" where
  "truthy DNone = False"
| "truthy (DInt i) = (i \<noteq> 0)"
| "truthy (DFloat x) = (x \<noteq> 0)"
| "truthy (DStr s) = (s \<noteq> [])"
| "truthy (DBool b) = b"
| "truthy (DList xs) = (xs \<noteq> [])"
| "truthy (DDict d) = (d \<noteq> [])"

text \<open>
  Modelled from the spec: the services selection relies on (missing code), taken as
  parameters: compiling a regular expression to its search predicate, parsing a
  condition, and turning a value into a string. Compiling and parsing give \<open>None\<close> on
  invalid syntax.
\<close>

record engine =
  regex_compile :: "string \<Rightarrow> (string \<Rightarrow> bool) option"
  parse_condition :: "string \<Rightarrow> expr option"
  stringify :: "DataType \<Rightarrow> string"

text \<open>Modelled from the spec: a filter \<^verbatim>\<open>key:pattern\<close> split at its first colon (missing code).\<close>

definition split_filter :: "string \<Rightarrow> (string \<times> string) option" where
  "split_filter f =
     (if CHR '':'' \<in> set f
      then Some (takeWhile (\<lambda>c. c \<noteq> CHR '':'') f, tl (dropWhile (\<lambda>c. c \<noteq> CHR '':'') f))
      else None)"

text \<open>
  The five criterion kinds follow. An empty criterion of any kind restricts nothing.
\<close>

text \<open>
  Modelled from the spec: the keys criterion (missing code): every listed key is present in the
  data, whatever its value.
\<close>

definition pass_keys :: "string list \<Rightarrow> tree \<Rightarrow> bool" where
  "pass_keys ks n = (\<forall>k \<in> set ks. map_of (data_of n) k \<noteq> None)"

text \<open>
  Modelled from the spec: one name expression searched in the path of a node (missing code).
\<close>

definition name_matches :: "engine \<Rightarrow> string \<Rightarrow> tree \<Rightarrow> bool" where
  "name_matches eng r n =
     (case regex_compile eng r of None \<Rightarrow> False | Some search \<Rightarrow> search (path_of n))"

text \<open>
  Modelled from the spec: the names criterion (missing code): any of the expressions matches.
\<close>

definition pass_names :: "engine \<Rightarrow> string list \<Rightarrow> tree \<Rightarrow> bool" where
  "pass_names eng rs n = (rs = [] \<or> (\<exists>r \<in> set rs. name_matches eng r n))"

text \<open>
  Modelled from the spec: containment of one string in another, as the sources criterion uses it
  (missing code).
\<close>

fun is_substring :: "string \<Rightarrow> string \<Rightarrow> bool" where
  "is_substring s [] = (s = [])"
| "is_substring s (c # t) = (take (length s) (c # t) = s \<or> is_substring s t)"

text \<open>
  Modelled from the spec: the sources criterion (missing code): any source of the node contains
  any of the given strings.
\<close>

definition pass_sources :: "string list \<Rightarrow> tree \<Rightarrow> bool" where
  "pass_sources ss n =
     (ss = [] \<or> (\<exists>s \<in> set ss. \<exists>src \<in> set (sources_of n). is_substring s src))"

text \<open>
  Modelled from the spec: one filter against a node (missing code): the value of its key, or an
  element of it when the value is a sequence, matches the pattern as a string.
\<close>

definition pass_filter :: "engine \<Rightarrow> string \<Rightarrow> tree \<Rightarrow> bool" where
  "pass_filter eng f n =
     (case split_filter f of
        None \<Rightarrow> False
      | Some (key, pattern) \<Rightarrow>
          (case regex_compile eng pattern of
             None \<Rightarrow> False
           | Some search \<Rightarrow>
               (case map_of (data_of n) key of
                  None \<Rightarrow> False
                | Some (DList xs) \<Rightarrow> (\<exists>x \<in> set xs. search (stringify eng x))
                | Some v \<Rightarrow> search (stringify eng v))))"

text \<open>
  Modelled from the spec: the filters criterion (missing code): every filter passes.
\<close>

definition pass_filters :: "engine \<Rightarrow> string list \<Rightarrow> tree \<Rightarrow> bool" where
  "pass_filters eng fs n = (\<forall>f \<in> set fs. pass_filter eng f n)"

text \<open>
  Modelled from the spec: one condition against a node (missing code): it evaluates to a true
  value, and an evaluation error makes it false.
\<close>

definition pass_condition :: "engine \<Rightarrow> string \<Rightarrow> tree \<Rightarrow> bool" where
  "pass_condition eng c n =
     (case parse_condition eng c of
        None \<Rightarrow> False
      | Some e \<Rightarrow> (case eval_expr (data_of n) e of Inl err \<Rightarrow> False | Inr v \<Rightarrow> truthy v))"

text \<open>
  Modelled from the spec: the conditions criterion (missing code): every condition passes.
\<close>

definition pass_conditions :: "engine \<Rightarrow> string list \<Rightarrow> tree \<Rightarrow> bool" where
  "pass_conditions eng cs n = (\<forall>c \<in> set cs. pass_condition eng c n)"

text \<open>
  Modelled from the spec: a node is selected when it is a candidate (a leaf, or any
  node when \<^verbatim>\<open>whole\<close> is set) and passes the five kinds (missing code).
\<close>

definition selected :: "engine \<Rightarrow> criteria \<Rightarrow> tree \<Rightarrow> bool" where
  "selected eng crit n =
     ((whole crit \<or> is_leaf n)
      \<and> pass_keys (keys crit) n
      \<and> pass_names eng (names crit) n
      \<and> pass_sources (crit_sources crit) n
      \<and> pass_filters eng (filters crit) n
      \<and> pass_conditions eng (conditions crit) n)"

text \<open>
  Modelled from the spec: the check at the start of a selection (missing code); an
  invalid regular expression, filter or condition is a \<^verbatim>\<open>FilterError\<close>.
\<close>

definition valid_criteria :: "engine \<Rightarrow> criteria \<Rightarrow> bool" where
  "valid_criteria eng crit =
     ((\<forall>r \<in> set (names crit). regex_compile eng r \<noteq> None)
      \<and> (\<forall>f \<in> set (filters crit).
            case split_filter f of
              None \<Rightarrow> False
            | Some (key, pattern) \<Rightarrow> regex_compile eng pattern \<noteq> None)
      \<and> (\<forall>c \<in> set (conditions crit). parse_condition eng c \<noteq> None))"

text \<open>
  Modelled from the spec: \<^verbatim>\<open>select(tree, criteria)\<close> (missing code), the selected
  nodes in pre-order: parents before children, children in discovery order.
\<close>

fun select_from :: "engine \<Rightarrow> criteria \<Rightarrow> tree \<Rightarrow> tree list" where
  "select_from eng crit (Node p d s cs) =
     (if selected eng crit (Node p d s cs) then [Node p d s cs] else [])
     @ concat (map (select_from eng crit) cs)"

text \<open>
  Modelled from the spec: the entry of the selection (missing code): invalid criteria are a
  \<^verbatim>\<open>FilterError\<close> raised before any node is looked at.
\<close>

definition select :: "engine \<Rightarrow> tree \<Rightarrow> criteria \<Rightarrow> exc + tree list" where
  "select eng tree crit =
     (if valid_criteria eng crit then Inr (select_from eng crit tree)
      else Inl (Exc FilterError ''invalid filter'' None))"

subsection \<open>Initialization and the version marker\<close>

text \<open>
  Modelled from the spec: the part of the file system that \<^verbatim>\<open>Tree.init\<close> and the
  loading of a tree use (missing code): the directories that can be written to and
  the content of the version marker of each directory that has one.
\<close>

record fsys =
  writable :: "string set"
  marker :: "string \<rightharpoonup> string"

text \<open>
  Modelled from the spec: \<^verbatim>\<open>Tree.init\<close> (missing code). Initializing a path that
  holds the version marker is a \<^verbatim>\<open>FileError\<close>, and so is a path without write
  permission; otherwise the marker is written with content \<^verbatim>\<open>1\<close> and the root is
  returned.
\<close>

definition Tree_init :: "fsys \<Rightarrow> string \<Rightarrow> exc + string \<times> fsys" where
  "Tree_init fs p =
     (if marker fs p \<noteq> None then Inl (Exc FileError ''already initialized'' None)
      else if p \<notin> writable fs then Inl (Exc FileError ''permission denied'' None)
      else Inr (p, fs\<lparr>marker := (marker fs)(p \<mapsto> ''1'')\<rparr>))"

text \<open>
  Reading the version when a tree is loaded: a missing marker and a marker that is
  not a decimal number are a \<^verbatim>\<open>FormatError\<close>, and only version 1 is understood.
\<close>

text \<open>
  Modelled from the spec: the value of a decimal digit of the version marker (missing code).
\<close>

definition digit_value :: "char \<Rightarrow> nat option" where
  "digit_value c =
     (let n = (of_char c :: nat) in if 48 \<le> n \<and> n \<le> 57 then Some (n - 48) else None)"

text \<open>
  Modelled from the spec: the number a string of decimal digits stands for (missing code).
\<close>

fun parse_digits :: "nat \<Rightarrow> string \<Rightarrow> nat option" where
  "parse_digits acc [] = Some acc"
| "parse_digits acc (c # cs) =
     (case digit_value c of None \<Rightarrow> None | Some d \<Rightarrow> parse_digits (10 * acc + d) cs)"

text \<open>
  Modelled from the spec: the content of the version marker read as a number (missing code);
  the empty string and anything with another character are not numbers.
\<close>

definition parse_version :: "string \<Rightarrow> nat option" where
  "parse_version content = (if content = [] then None else parse_digits 0 content)"

text \<open>
  Modelled from the spec: the version check of a load (missing code).
\<close>

definition load_version :: "fsys \<Rightarrow> string \<Rightarrow> exc + nat" where
  "load_version fs p =
     (case marker fs p of
        None \<Rightarrow> Inl (Exc FormatError ''missing version'' None)
      | Some content \<Rightarrow>
          (case parse_version content of
             None \<Rightarrow> Inl (Exc FormatError ''invalid version'' None)
           | Some v \<Rightarrow>
               if v = 1 then Inr v else Inl (Exc FormatError ''unsupported version'' None)))"

section \<open>Example instances\<close>

text \<open>
  A small tree source for examples: the root path \<^verbatim>\<open>good\<close> holds the nodes
  \<^verbatim>\<open>/a\<close> and \<^verbatim>\<open>/b\<close>, every other root path is missing (\<^verbatim>\<open>FileError\<close>).
  \<^verbatim>\<open>show\<close> gives the name and a line terminator in brief mode, the template itself
  when one is given (no values), and the name with one attribute otherwise.
\<close>

definition demo_listed :: "nat \<Rightarrow> string \<Rightarrow> string" where
  "demo_listed n what =
     (if n = 0 then ''0 '' @ what @ ''s''
      else if n = 1 then ''1 '' @ what
      else ''many '' @ what @ ''s'')"

definition demo_api :: "(string list, string, unit) fmf_api" where
  "demo_api =
     \<lparr>Tree = (\<lambda>p. if p = ''good'' then Inr [''/a'', ''/b'']
                 else Inl (Exc FileError ''Unable to find tree root'' None)),
      prune = (\<lambda>tree select_opts. (tree, None)),
      node_show = (\<lambda>node brief fopts.
         Inr (Some (case fopts of
                      None \<Rightarrow> node @ newline
                    | Some f \<Rightarrow>
                        (case formatting f of
                           None \<Rightarrow> node @ newline @ ''summary: x'' @ newline
                         | Some template \<Rightarrow> template)))),
      node_sources = (\<lambda>node. [node @ ''/main.fmf'']),
      color = (\<lambda>text colour. text),
      listed = demo_listed\<rparr>"

text \<open>
  A tree source with faults: the root path \<^verbatim>\<open>unselectable\<close> holds a tree whose
  selection ends with a \<^verbatim>\<open>FilterError\<close> after its first node, the root path
  \<^verbatim>\<open>unrenderable\<close> holds the node \<^verbatim>\<open>/broken\<close>, which \<^verbatim>\<open>show\<close> cannot render, and
  every root path but these and \<^verbatim>\<open>good\<close> is missing.
\<close>

definition faulty_api :: "(string list, string, unit) fmf_api" where
  "faulty_api =
     \<lparr>Tree = (\<lambda>p. if p = ''good'' then Inr [''/a'', ''/b'']
                 else if p = ''unselectable'' then Inr [''/a'', ''/stop'']
                 else if p = ''unrenderable'' then Inr [''/a'', ''/broken'', ''/b'']
                 else Inl (Exc FileError ''Unable to find tree root'' None)),
      prune = (\<lambda>tree select_opts.
         if ''/stop'' \<in> set tree
         then (takeWhile (\<lambda>node. node \<noteq> ''/stop'') tree,
               Some (Exc FilterError ''Invalid filter'' None))
         else (tree, None)),
      node_show = (\<lambda>node brief fopts.
         if node = ''/broken'' then Inl (Exc KeyError ''summary'' None)
         else Inr (Some (node @ newline))),
      node_sources = (\<lambda>node. [node @ ''/main.fmf'']),
      color = (\<lambda>text colour. text),
      listed = demo_listed\<rparr>"

definition loud :: ctx_obj where
  "loud = \<lparr>verbose = True, debug = 0\<rparr>"

definition quiet :: ctx_obj where
  "quiet = \<lparr>verbose = False, debug = 0\<rparr>"

text \<open>
  A process in \<^verbatim>\<open>/work\<close>, and two bodies for \<^verbatim>\<open>with cd(...)\<close>: one raises
  \<^verbatim>\<open>KeyError\<close> after changing the rest of the state, one removes the directory the
  process came from.
\<close>

definition workdir_state :: "nat process" where
  "workdir_state = \<lparr>cwd = ''/work'', dirs = {''/work'', ''/tmp''}, other = 0\<rparr>"

definition raising_body :: "nat process \<Rightarrow> exc option \<times> nat process" where
  "raising_body s = (Some (Exc KeyError ''missing'' None), s\<lparr>other := other s + 1\<rparr>)"

definition removing_body :: "nat process \<Rightarrow> exc option \<times> nat process" where
  "removing_body s = (None, s\<lparr>dirs := dirs s - {''/work''}\<rparr>)"

text \<open>
  An engine for examples: a pattern without special characters searches for itself,
  the one condition known is \<^verbatim>\<open>execute["missing"] == "x"\<close>, and strings are their
  own text. The tree has the leaves \<^verbatim>\<open>/download/test\<close> and \<^verbatim>\<open>/recursion/deep\<close>.
\<close>

definition dq :: string where
  "dq = [CHR 0x22]"

definition missing_key_condition :: string where
  "missing_key_condition = ''execute['' @ dq @ ''missing'' @ dq @ ''] == '' @ dq @ ''x'' @ dq"

definition demo_engine :: engine where
  "demo_engine =
     \<lparr>regex_compile = (\<lambda>pattern. Some (is_substring pattern)),
      parse_condition = (\<lambda>c.
         if c = missing_key_condition
         then Some (Equal (Subscript (Name ''execute'') (Const (DStr ''missing'')))
                      (Const (DStr ''x'')))
         else None),
      stringify = (\<lambda>v. case v of DStr s \<Rightarrow> s | _ \<Rightarrow> [])\<rparr>"

definition download_test :: tree where
  "download_test =
     Node ''/download/test''
       [(''tags'', DList [DStr ''Tier1'', DStr ''TierSecurity''])]
       [''/wget/download/test.fmf''] []"

definition recursion_deep :: tree where
  "recursion_deep =
     Node ''/recursion/deep'' [(''tags'', DList [DStr ''Tier1'']), (''depth'', DInt 1000)]
       [''/wget/recursion/main.fmf''] []"

definition wget_tree :: tree where
  "wget_tree = Node ''/'' [] [] [download_test, recursion_deep]"

definition no_criteria :: criteria where
  "no_criteria =
     \<lparr>keys = [], names = [], crit_sources = [], filters = [], conditions = [],
      whole = False\<rparr>"

text \<open>
  Two selection requests: the filters \<^verbatim>\<open>tags:Tier1\<close> and \<^verbatim>\<open>tags:TierSecurity\<close>, and
  the condition on the missing key.
\<close>

definition tier_filters :: criteria where
  "tier_filters = no_criteria\<lparr>filters := [''tags:Tier1'', ''tags:TierSecurity'']\<rparr>"

definition missing_key :: criteria where
  "missing_key = no_criteria\<lparr>conditions := [missing_key_condition]\<rparr>"

text \<open>A file system with one writable directory and no marker.\<close>

definition fresh_fs :: fsys where
  "fresh_fs = \<lparr>writable = {''/repo''}, marker = Map.empty\<rparr>"

section \<open>Properties of \<^verbatim>\<open>normalize\<close>\<close>

lemma comprehension_Inr_iff:
  "comprehension f ds = Inr ys \<longleftrightarrow> map f ds = map Inr ys"
proof (induction ds arbitrary: ys)
  case Nil
  then show ?case by auto
next
  case (Cons d ds)
  show ?case
  proof (cases "f d")
    case (Inl e)
    then show ?thesis by (cases ys) auto
  next
    case y: (Inr y)
    show ?thesis
    proof (cases "comprehension f ds")
      case (Inl e)
      have "map f ds \<noteq> map Inr zs" for zs
        using Cons.IH [of zs] Inl by simp
      with y Inl show ?thesis by (cases ys) auto
    next
      case (Inr zs)
      then have "map f ds = map Inr zs"
        using Cons.IH [of zs] by simp
      with y Inr show ?thesis by (cases ys) (auto simp: inj_map_eq_map [OF inj_Inr])
    qed
  qed
qed

lemma comprehension_length:
  "comprehension f ds = Inr ys \<Longrightarrow> length ys = length ds"
  by (simp add: comprehension_Inr_iff) (metis length_map)

lemma comprehension_nth:
  assumes "comprehension f ds = Inr ys" and "i < length ds"
  shows "f (ds ! i) = Inr (ys ! i)"
proof -
  from assms(1) have eq: "map f ds = map Inr ys"
    by (simp add: comprehension_Inr_iff)
  then have len: "length ys = length ds"
    by (metis length_map)
  from eq have "map f ds ! i = map Inr ys ! i" by simp
  with assms(2) len show ?thesis by simp
qed

lemma comprehension_total:
  assumes "\<And>d. d \<in> set ds \<Longrightarrow> \<exists>y. f d = Inr y"
  shows "\<exists>ys. comprehension f ds = Inr ys"
  using assms
proof (induction ds)
  case Nil
  then show ?case by simp
next
  case (Cons d ds)
  then obtain y where y: "f d = Inr y" by auto
  from Cons obtain ys where "comprehension f ds = Inr ys" by auto
  with y show ?case by simp
qed

lemma comprehension_Inl:
  "comprehension f ds = Inl e \<Longrightarrow> \<exists>d \<in> set ds. f d = Inl e"
  by (induction ds) (auto split: sum.splits)

lemma element_conversion_Some:
  "element_conversion call_cls T args (Some n) = (\<lambda>d. n d args)"
  by (rule ext) (simp add: element_conversion_def)

lemma element_conversion_None:
  "element_conversion call_cls T args None = (\<lambda>d. call_cls T d args)"
  by (rule ext) (simp add: element_conversion_def)

lemma normalize_list_target:
  "normalize call_cls (GenericAlias Builtin_list (T # Ts)) data args normalizer =
     map_sum id Objs
       (comprehension (element_conversion call_cls T args normalizer)
          (case data of DList xs \<Rightarrow> xs | _ \<Rightarrow> [data]))"
  by (cases data; cases normalizer)
     (simp_all add: normalize_def element_conversion_Some element_conversion_None)

text \<open>
  Claim C8. For a list-typed target \<^verbatim>\<open>list[T]\<close>, \<^verbatim>\<open>normalize\<close> treats data that is
  not a list as the singleton list of it: \<^verbatim>\<open>normalize(list[T], d)\<close> and
  \<^verbatim>\<open>normalize(list[T], [d])\<close> are the same outcome. Whatever it returns is a list, as
  long as the input list (length 1 for wrapped data), whose \<open>i\<close>-th element is the \<open>i\<close>-th
  input element converted by the normalizer when one is given and by the element class
  \<open>T\<close> otherwise. It returns whenever every element converts, and the only exceptions
  it raises are those of an element's conversion.
\<close>

theorem normalize_list_always_list:
  fixes call_cls :: "pytype \<Rightarrow> DataType \<Rightarrow> 'a \<Rightarrow> exc + 'o"
  assumes cls: "cls = GenericAlias Builtin_list (T # Ts)"
  shows
    "(\<not> isinstance_list d \<longrightarrow>
        normalize call_cls cls d args nz = normalize call_cls cls (DList [d]) args nz)
     \<and> (\<forall>r. normalize call_cls cls (DList xs) args nz = Inr r \<longrightarrow>
          (\<exists>ys. r = Objs ys \<and> length ys = length xs \<and>
             (\<forall>i < length xs. element_conversion call_cls T args nz (xs ! i) = Inr (ys ! i))))
     \<and> ((\<forall>x \<in> set xs. \<exists>y. element_conversion call_cls T args nz x = Inr y) \<longrightarrow>
          (\<exists>ys. normalize call_cls cls (DList xs) args nz = Inr (Objs ys) \<and>
             length ys = length xs))
     \<and> (\<forall>e. normalize call_cls cls (DList xs) args nz = Inl e \<longrightarrow>
          (\<exists>x \<in> set xs. element_conversion call_cls T args nz x = Inl e))"
proof (intro conjI impI allI)
  assume "\<not> isinstance_list d"
  then show "normalize call_cls cls d args nz = normalize call_cls cls (DList [d]) args nz"
    unfolding cls normalize_list_target by (cases d) simp_all
next
  fix r
  assume "normalize call_cls cls (DList xs) args nz = Inr r"
  then obtain ys where ys: "comprehension (element_conversion call_cls T args nz) xs = Inr ys"
    and r: "r = Objs ys"
    unfolding cls normalize_list_target
    by (cases "comprehension (element_conversion call_cls T args nz) xs") auto
  from ys have "length ys = length xs"
    by (rule comprehension_length)
  moreover from ys have
    "\<forall>i < length xs. element_conversion call_cls T args nz (xs ! i) = Inr (ys ! i)"
    by (simp add: comprehension_nth)
  ultimately show "\<exists>ys. r = Objs ys \<and> length ys = length xs \<and>
      (\<forall>i < length xs. element_conversion call_cls T args nz (xs ! i) = Inr (ys ! i))"
    using r by blast
next
  assume "\<forall>x \<in> set xs. \<exists>y. element_conversion call_cls T args nz x = Inr y"
  then obtain ys where ys: "comprehension (element_conversion call_cls T args nz) xs = Inr ys"
    using comprehension_total [of xs "element_conversion call_cls T args nz"] by blast
  then have "length ys = length xs"
    by (rule comprehension_length)
  with ys show "\<exists>ys. normalize call_cls cls (DList xs) args nz = Inr (Objs ys) \<and>
      length ys = length xs"
    unfolding cls normalize_list_target by simp
next
  fix e
  assume "normalize call_cls cls (DList xs) args nz = Inl e"
  then have "comprehension (element_conversion call_cls T args nz) xs = Inl e"
    unfolding cls normalize_list_target
    by (cases "comprehension (element_conversion call_cls T args nz) xs") auto
  then show "\<exists>x \<in> set xs. element_conversion call_cls T args nz x = Inl e"
    by (rule comprehension_Inl)
qed

text \<open>
  The theorem at \<^verbatim>\<open>list[int]\<close>: the bare integer 5 and the list \<^verbatim>\<open>[5]\<close> both give
  \<^verbatim>\<open>[5]\<close>, and \<^verbatim>\<open>[5, 7]\<close> gives a list of two.
\<close>

theorem normalize_list_always_list_witness:
  "\<not> isinstance_list (DInt 5)
   \<and> normalize int_of_data (GenericAlias Builtin_list [Class ''int'']) (DInt 5) () None
       = normalize int_of_data (GenericAlias Builtin_list [Class ''int'']) (DList [DInt 5]) () None
   \<and> normalize int_of_data (GenericAlias Builtin_list [Class ''int'']) (DInt 5) () None
       = Inr (Objs [5])
   \<and> (\<exists>ys. normalize int_of_data (GenericAlias Builtin_list [Class ''int''])
              (DList [DInt 5, DInt 7]) () None = Inr (Objs ys) \<and> length ys = 2)"
proof -
  let ?L = "GenericAlias Builtin_list [Class ''int'']"
  have nl: "\<not> isinstance_list (DInt 5)" by simp
  have conv: "\<forall>x \<in> set [DInt 5, DInt 7].
      \<exists>y. element_conversion int_of_data (Class ''int'') () None x = Inr y"
    by (simp add: element_conversion_def int_of_data_def)
  note C = normalize_list_always_list
    [of ?L "Class ''int''" "[]" "DInt 5" int_of_data "()" None "[DInt 5, DInt 7]", OF refl]
  from C nl have "normalize int_of_data ?L (DInt 5) () None
      = normalize int_of_data ?L (DList [DInt 5]) () None"
    by blast
  moreover have "normalize int_of_data ?L (DInt 5) () None = Inr (Objs [5])"
    by (simp add: normalize_def int_of_data_def)
  moreover have "\<exists>ys. normalize int_of_data ?L (DList [DInt 5, DInt 7]) () None
      = Inr (Objs ys) \<and> length ys = 2"
  proof -
    from C conv have "\<exists>ys. normalize int_of_data ?L (DList [DInt 5, DInt 7]) () None
        = Inr (Objs ys) \<and> length ys = length [DInt 5, DInt 7]"
      by blast
    then show ?thesis by (simp add: numeral_2_eq_2)
  qed
  ultimately show ?thesis using nl by blast
qed

section \<open>Properties of the command line\<close>

subsection \<open>\<^verbatim>\<open>_show\<close>: the loop over the root paths\<close>

lemma show_paths_append:
  "show_paths api ctx sel fo brief (ps @ qs) st =
     (case show_paths api ctx sel fo brief ps st of
        (infos, Inl e) \<Rightarrow> (infos, Inl e)
      | (infos, Inr output) \<Rightarrow> show_paths api ctx sel fo brief qs (infos, output))"
proof (induction ps arbitrary: st)
  case Nil
  then show ?case by (cases st) simp
next
  case (Cons p ps)
  obtain infos outs where st: "st = (infos, outs)" by (cases st)
  show ?case
    unfolding st by (simp add: Cons.IH Let_def split: sum.splits prod.splits)
qed

lemma show_nodes_append:
  "show_nodes api ctx fo brief (ns1 @ ns2) ended outs =
     (case show_nodes api ctx fo brief ns1 None outs of
        Inl e \<Rightarrow> Inl e
      | Inr outs' \<Rightarrow> show_nodes api ctx fo brief ns2 ended outs')"
  by (induction ns1 arbitrary: outs) (auto split: sum.splits option.splits)

lemma show_node_render_error:
  assumes "brief \<or> fo \<noteq> None"
    and "node_show api n brief (if brief then None else fo) = Inl e"
  shows "show_node api ctx fo brief n = Inl e"
  using assms by (auto simp: show_node_def split: option.splits)

lemma show_paths_load_error:
  assumes "Tree api p = Inl e"
  shows "show_paths api ctx sel fo brief (p # qs) (infos, outs) =
           (if verbose ctx then infos @ [''Checking '' @ p @ '' for metadata.''] else infos,
            Inl e)"
  using assms by (simp add: Let_def)

lemma show_paths_nodes_error:
  assumes "Tree api p = Inr tree" and "prune api tree sel = (nodes, ended)"
    and "show_nodes api ctx fo brief nodes ended outs = Inl e"
  shows "show_paths api ctx sel fo brief (p # qs) (infos, outs) =
           (if verbose ctx then infos @ [''Checking '' @ p @ '' for metadata.''] else infos,
            Inl e)"
  using assms by (simp add: Let_def)

text \<open>
  Claim C4, as amended. A fatal error raised while processing one root path ends the
  whole invocation. Let the roots \<open>ps\<close> before \<open>p\<close> be processed without error. When
  loading \<open>p\<close> fails (\<^verbatim>\<open>Tree(str(p))\<close> raises \<open>e\<close>), when its selection fails
  (\<^verbatim>\<open>prune\<close> raises \<open>e\<close> after nodes that were rendered), or when rendering one of its
  nodes fails (\<^verbatim>\<open>show\<close> raises \<open>e\<close> after the earlier nodes were rendered), \<^verbatim>\<open>_show\<close>
  raises \<open>e\<close> whatever root paths \<open>qs\<close> follow, nothing is echoed (not even what the
  roots \<open>ps\<close> rendered), and the \<^verbatim>\<open>info\<close> lines end at \<open>p\<close>: no later root path is
  loaded, selected or rendered.
\<close>

theorem show_stops_at_first_failing_root:
  assumes before: "show_paths api ctx sel fo brief ps ([], []) = (infos, Inr outs)"
  shows
    "(Tree api p = Inl e \<longrightarrow>
        cli_show api ctx (ps @ p # qs) sel fo brief =
          \<lparr>stdout = [],
           stderr = (if verbose ctx then infos @ [''Checking '' @ p @ '' for metadata.'']
                     else infos),
           raised = Some e\<rparr>)
     \<and> (Tree api p = Inr tree \<and> prune api tree sel = (nodes, Some e)
          \<and> show_nodes api ctx fo brief nodes None outs = Inr rendered \<longrightarrow>
        cli_show api ctx (ps @ p # qs) sel fo brief =
          \<lparr>stdout = [],
           stderr = (if verbose ctx then infos @ [''Checking '' @ p @ '' for metadata.'']
                     else infos),
           raised = Some e\<rparr>)
     \<and> (Tree api p = Inr tree \<and> prune api tree sel = (earlier @ node # later, ended)
          \<and> show_nodes api ctx fo brief earlier None outs = Inr rendered
          \<and> (brief \<or> fo \<noteq> None)
          \<and> node_show api node brief (if brief then None else fo) = Inl e \<longrightarrow>
        cli_show api ctx (ps @ p # qs) sel fo brief =
          \<lparr>stdout = [],
           stderr = (if verbose ctx then infos @ [''Checking '' @ p @ '' for metadata.'']
                     else infos),
           raised = Some e\<rparr>)"
proof -
  let ?infos' = "if verbose ctx then infos @ [''Checking '' @ p @ '' for metadata.'']
    else infos"
  have abort: "cli_show api ctx (ps @ p # qs) sel fo brief =
      \<lparr>stdout = [], stderr = ?infos', raised = Some e\<rparr>"
    if "show_paths api ctx sel fo brief (p # qs) (infos, outs) = (?infos', Inl e)"
    using that before by (simp add: cli_show_def show_paths_append)
  show ?thesis
  proof (intro conjI impI)
    assume "Tree api p = Inl e"
    then show "cli_show api ctx (ps @ p # qs) sel fo brief =
        \<lparr>stdout = [], stderr = ?infos', raised = Some e\<rparr>"
      by (intro abort show_paths_load_error)
  next
    assume sel_error: "Tree api p = Inr tree \<and> prune api tree sel = (nodes, Some e)
      \<and> show_nodes api ctx fo brief nodes None outs = Inr rendered"
    then have "show_nodes api ctx fo brief nodes (Some e) outs = Inl e"
      using show_nodes_append [of api ctx fo brief nodes "[]" "Some e" outs] by simp
    with sel_error show "cli_show api ctx (ps @ p # qs) sel fo brief =
        \<lparr>stdout = [], stderr = ?infos', raised = Some e\<rparr>"
      by (intro abort show_paths_nodes_error [of api p tree sel nodes "Some e"]) simp_all
  next
    assume render_error: "Tree api p = Inr tree \<and> prune api tree sel = (earlier @ node # later, ended)
      \<and> show_nodes api ctx fo brief earlier None outs = Inr rendered
      \<and> (brief \<or> fo \<noteq> None)
      \<and> node_show api node brief (if brief then None else fo) = Inl e"
    then have "show_node api ctx fo brief node = Inl e"
      by (intro show_node_render_error) simp_all
    with render_error have "show_nodes api ctx fo brief (earlier @ node # later) ended outs = Inl e"
      by (simp add: show_nodes_append)
    with render_error show "cli_show api ctx (ps @ p # qs) sel fo brief =
        \<lparr>stdout = [], stderr = ?infos', raised = Some e\<rparr>"
      by (intro abort show_paths_nodes_error [of api p tree sel "earlier @ node # later" ended]) simp_all
  qed
qed

text \<open>
  The theorem at the roots \<^verbatim>\<open>good, p, good\<close> for a root \<open>p\<close> that is missing, one
  whose selection fails and one with a node that cannot be rendered: the third root
  is never looked at.
\<close>

theorem show_stops_at_first_failing_root_witness:
  "show_paths faulty_api loud () None True [''good''] ([], [])
     = ([''Checking good for metadata.''], Inr [''/a'' @ newline, ''/b'' @ newline])
   \<and> Tree faulty_api ''missing'' = Inl (Exc FileError ''Unable to find tree root'' None)
   \<and> cli_show faulty_api loud [''good'', ''missing'', ''good''] () None True
     = \<lparr>stdout = [],
        stderr = [''Checking good for metadata.'', ''Checking missing for metadata.''],
        raised = Some (Exc FileError ''Unable to find tree root'' None)\<rparr>
   \<and> Tree faulty_api ''unselectable'' = Inr [''/a'', ''/stop'']
   \<and> prune faulty_api [''/a'', ''/stop''] ()
     = ([''/a''], Some (Exc FilterError ''Invalid filter'' None))
   \<and> cli_show faulty_api loud [''good'', ''unselectable'', ''good''] () None True
     = \<lparr>stdout = [],
        stderr = [''Checking good for metadata.'', ''Checking unselectable for metadata.''],
        raised = Some (Exc FilterError ''Invalid filter'' None)\<rparr>
   \<and> Tree faulty_api ''unrenderable'' = Inr [''/a'', ''/broken'', ''/b'']
   \<and> prune faulty_api [''/a'', ''/broken'', ''/b''] () = ([''/a''] @ ''/broken'' # [''/b''], None)
   \<and> node_show faulty_api ''/broken'' True None = Inl (Exc KeyError ''summary'' None)
   \<and> cli_show faulty_api loud [''good'', ''unrenderable'', ''good''] () None True
     = \<lparr>stdout = [],
        stderr = [''Checking good for metadata.'', ''Checking unrenderable for metadata.''],
        raised = Some (Exc KeyError ''summary'' None)\<rparr>"
proof -
  let ?outs = "[''/a'' @ newline, ''/b'' @ newline]"
  have before: "show_paths faulty_api loud () None True [''good''] ([], [])
      = ([''Checking good for metadata.''], Inr ?outs)"
    by (simp add: faulty_api_def loud_def show_node_def)
  have load: "Tree faulty_api ''missing'' = Inl (Exc FileError ''Unable to find tree root'' None)"
    by (simp add: faulty_api_def)
  have tree_sel: "Tree faulty_api ''unselectable'' = Inr [''/a'', ''/stop'']"
    by (simp add: faulty_api_def)
  have prune_sel: "prune faulty_api [''/a'', ''/stop''] ()
      = ([''/a''], Some (Exc FilterError ''Invalid filter'' None))"
    by (simp add: faulty_api_def)
  have tree_render: "Tree faulty_api ''unrenderable'' = Inr [''/a'', ''/broken'', ''/b'']"
    by (simp add: faulty_api_def)
  have prune_render: "prune faulty_api [''/a'', ''/broken'', ''/b''] ()
      = ([''/a''] @ ''/broken'' # [''/b''], None)"
    by (simp add: faulty_api_def)
  have first_node: "show_nodes faulty_api loud None True [''/a''] None ?outs
      = Inr (?outs @ [''/a'' @ newline])"
    by (simp add: faulty_api_def loud_def show_node_def)
  have render: "node_show faulty_api ''/broken'' True None = Inl (Exc KeyError ''summary'' None)"
    by (simp add: faulty_api_def)
  have verbose: "verbose loud"
    by (simp add: loud_def)
  note C = show_stops_at_first_failing_root [OF before]
  from C [where p = "''missing''" and qs = "[''good'']"
      and e = "Exc FileError ''Unable to find tree root'' None"
      and tree = "[]" and nodes = "[]" and rendered = "[]" and earlier = "[]" and node = "[]"
      and later = "[]" and ended = None] load verbose
  have "cli_show faulty_api loud [''good'', ''missing'', ''good''] () None True
      = \<lparr>stdout = [],
         stderr = [''Checking good for metadata.'', ''Checking missing for metadata.''],
         raised = Some (Exc FileError ''Unable to find tree root'' None)\<rparr>"
    by simp
  moreover
  from C [where p = "''unselectable''" and qs = "[''good'']"
      and e = "Exc FilterError ''Invalid filter'' None"
      and tree = "[''/a'', ''/stop'']" and nodes = "[''/a'']"
      and rendered = "?outs @ [''/a'' @ newline]" and earlier = "[]" and node = "[]"
      and later = "[]" and ended = None] tree_sel prune_sel first_node verbose
  have "cli_show faulty_api loud [''good'', ''unselectable'', ''good''] () None True
      = \<lparr>stdout = [],
         stderr = [''Checking good for metadata.'', ''Checking unselectable for metadata.''],
         raised = Some (Exc FilterError ''Invalid filter'' None)\<rparr>"
    by simp
  moreover
  from C [where p = "''unrenderable''" and qs = "[''good'']"
      and e = "Exc KeyError ''summary'' None"
      and tree = "[''/a'', ''/broken'', ''/b'']" and nodes = "[]"
      and rendered = "?outs @ [''/a'' @ newline]" and earlier = "[''/a'']" and node = "''/broken''"
      and later = "[''/b'']" and ended = None] tree_render prune_render first_node render verbose
  have "cli_show faulty_api loud [''good'', ''unrenderable'', ''good''] () None True
      = \<lparr>stdout = [],
         stderr = [''Checking good for metadata.'', ''Checking unrenderable for metadata.''],
         raised = Some (Exc KeyError ''summary'' None)\<rparr>"
    by simp
  ultimately show ?thesis
    using before load tree_sel prune_sel tree_render prune_render render by blast
qed

text \<open>
  Claim C4 as stated fails: with the root paths \<^verbatim>\<open>bad, good\<close> the error of the first
  aborts the second, which on its own is loaded and rendered.
\<close>

theorem show_later_root_not_processed:
  "cli_show demo_api loud [''bad'', ''good''] () None True
     = \<lparr>stdout = [], stderr = [''Checking bad for metadata.''],
        raised = Some (Exc FileError ''Unable to find tree root'' None)\<rparr>
   \<and> cli_show demo_api loud [''good''] () None True
     = \<lparr>stdout = ''/a'' @ newline @ ''/b'' @ newline,
        stderr = [''Checking good for metadata.'', ''Found many objects.''],
        raised = None\<rparr>"
  by (simp add: cli_show_def demo_api_def loud_def show_node_def demo_listed_def)

subsection \<open>\<^verbatim>\<open>_show\<close>: joining the output\<close>

lemma join_Cons: "join sep (x # xs) = x @ concat (map (\<lambda>out. sep @ out) xs)"
  by (induction xs arbitrary: x) simp_all

text \<open>
  Claim C5, as amended. When the loop ends without an exception with the list
  \<open>output\<close> of rendered nodes, \<^verbatim>\<open>_show\<close> echoes the outputs concatenated with no
  separator in brief mode and when a non-empty format template was given; otherwise
  (no template, or the empty one) it echoes them with one line terminator between
  consecutive outputs, a blank line between outputs that end their last line.
\<close>

theorem show_joining_policy:
  assumes "show_paths api ctx sel fo brief paths ([], []) = (infos, Inr output)"
  shows "raised (cli_show api ctx paths sel fo brief) = None
    \<and> stdout (cli_show api ctx paths sel fo brief) =
        (if brief \<or> (\<exists>f template. fo = Some f \<and> formatting f = Some template \<and> template \<noteq> [])
         then concat output
         else join newline output)
    \<and> join newline (out # outs) = out @ concat (map (\<lambda>next_out. newline @ next_out) outs)"
  using assms
  by (auto simp: cli_show_def formatting_given_def join_Cons Let_def split: option.splits)

text \<open>
  The theorem at the structured output of the two nodes of \<^verbatim>\<open>good\<close>: a blank line
  stands between them.
\<close>

theorem show_joining_policy_witness:
  "show_paths demo_api quiet () (Some \<lparr>formatting = None, format_values = []\<rparr>) False
       [''good''] ([], [])
     = ([], Inr [''/a'' @ newline @ ''summary: x'' @ newline,
                 ''/b'' @ newline @ ''summary: x'' @ newline])
   \<and> stdout (cli_show demo_api quiet [''good''] ()
        (Some \<lparr>formatting = None, format_values = []\<rparr>) False)
     = ''/a'' @ newline @ ''summary: x'' @ newline @ newline
       @ ''/b'' @ newline @ ''summary: x'' @ newline"
proof -
  let ?fo = "Some \<lparr>formatting = None, format_values = []\<rparr>"
  have run: "show_paths demo_api quiet () ?fo False [''good''] ([], [])
      = ([], Inr [''/a'' @ newline @ ''summary: x'' @ newline,
                  ''/b'' @ newline @ ''summary: x'' @ newline])"
    by (simp add: demo_api_def quiet_def show_node_def)
  from show_joining_policy [OF run] run show ?thesis by simp
qed

text \<open>
  Claim C5 as stated fails: with \<^verbatim>\<open>--format ''\<close> a template was supplied, each node
  renders as the empty string, and the two outputs are joined by a line terminator,
  not concatenated.
\<close>

theorem show_empty_template_joined_by_newline:
  "formatting \<lparr>formatting = Some [], format_values = []\<rparr> = Some []
   \<and> show_paths demo_api quiet () (Some \<lparr>formatting = Some [], format_values = []\<rparr>) False
       [''good''] ([], []) = ([], Inr [[], []])
   \<and> stdout (cli_show demo_api quiet [''good''] ()
        (Some \<lparr>formatting = Some [], format_values = []\<rparr>) False) = newline
   \<and> concat [[], []] \<noteq> newline"
  by (simp add: cli_show_def demo_api_def quiet_def show_node_def formatting_given_def
      newline_def)

subsection \<open>\<^verbatim>\<open>CatchAllExceptions\<close>\<close>

text \<open>
  Claim C10, as amended. What \<^verbatim>\<open>self.main\<close> returns, \<^verbatim>\<open>__call__\<close> returns. An
  exception of class \<^verbatim>\<open>Exception\<close> (or a subclass: \<^verbatim>\<open>FormatError\<close>,
  \<^verbatim>\<open>FileError\<close>, \<^verbatim>\<open>FilterError\<close>, ...) is re-raised as \<^verbatim>\<open>GeneralError\<close> with the
  message \<^verbatim>\<open>fmf cli command failed\<close> and the original exception as its cause. An
  exception outside \<^verbatim>\<open>Exception\<close> (\<^verbatim>\<open>SystemExit\<close>, \<^verbatim>\<open>KeyboardInterrupt\<close>,
  \<^verbatim>\<open>GeneratorExit\<close>) leaves \<^verbatim>\<open>__call__\<close> unchanged.
\<close>

theorem catch_all_wraps_Exception:
  "(self_main args = Inr r \<longrightarrow> CatchAllExceptions_call self_main args = Inr r)
   \<and> (self_main args = Inl err \<and> is_Exception (exc_cls err) \<longrightarrow>
        CatchAllExceptions_call self_main args
          = Inl (Exc GeneralError ''fmf cli command failed'' (Some err)))
   \<and> (self_main args = Inl err \<and> \<not> is_Exception (exc_cls err) \<longrightarrow>
        CatchAllExceptions_call self_main args = Inl err)"
  by (simp add: CatchAllExceptions_call_def)

text \<open>The theorem at a \<^verbatim>\<open>FileError\<close> of the \<^verbatim>\<open>show\<close> command.\<close>

theorem catch_all_wraps_Exception_witness:
  "CatchAllExceptions_call
     (\<lambda>args :: string list. Inl (Exc FileError ''Unable to find tree root'' None) :: exc + unit)
     [''show'']
   = Inl (Exc GeneralError ''fmf cli command failed''
       (Some (Exc FileError ''Unable to find tree root'' None)))"
  using catch_all_wraps_Exception
    [of "\<lambda>args :: string list. Inl (Exc FileError ''Unable to find tree root'' None) :: exc + unit"
        "[''show'']" _ "Exc FileError ''Unable to find tree root'' None"]
  by simp

text \<open>
  Claim C10 as stated fails: the \<^verbatim>\<open>SystemExit\<close> with which the command line ends on
  a wrong command escapes \<^verbatim>\<open>__call__\<close> as it is, not as a \<^verbatim>\<open>GeneralError\<close>.
\<close>

theorem catch_all_lets_SystemExit_through:
  "CatchAllExceptions_call
     (\<lambda>args :: string list. Inl (Exc SystemExit ''2'' None) :: exc + unit) [''wrongcommand'']
   = Inl (Exc SystemExit ''2'' None)
   \<and> exc_cls (Exc SystemExit ''2'' None) \<noteq> GeneralError"
  by (simp add: CatchAllExceptions_call_def)

subsection \<open>\<^verbatim>\<open>cd\<close>\<close>

text \<open>
  Claim C9, as amended. Entered from an existing working directory with a target the
  process can enter, \<^verbatim>\<open>cd\<close> runs the body in the entry state with only the working
  directory changed to the target. When the body exits, normally or by raising, and
  the directory of entry can still be entered, the working directory is that of
  entry again, the outcome is the body's, and the rest of the state is as the body
  left it. When the directory of entry is gone, the restoring \<^verbatim>\<open>chdir\<close> raises
  \<^verbatim>\<open>OSError\<close> and the state stays as the body left it.
\<close>

theorem cd_restores_cwd:
  assumes "cwd s \<in> dirs s" and "target \<in> dirs s"
    and "body (s\<lparr>cwd := target\<rparr>) = (r, s2)"
  shows "(cwd s \<in> dirs s2 \<longrightarrow> cd target body s = (r, s2\<lparr>cwd := cwd s\<rparr>))
    \<and> (cwd s \<notin> dirs s2 \<longrightarrow>
         cd target body s = (Some (Exc OSError ''chdir: no such file or directory'' None), s2))"
  using assms by (simp add: cd_def getcwd_def chdir_def)

text \<open>
  The theorem at a body that raises \<^verbatim>\<open>KeyError\<close> after changing the rest of the
  state: the exception and the change remain, the working directory is restored.
\<close>

theorem cd_restores_cwd_witness:
  "cwd workdir_state \<in> dirs workdir_state
   \<and> ''/tmp'' \<in> dirs workdir_state
   \<and> raising_body (workdir_state\<lparr>cwd := ''/tmp''\<rparr>)
       = (Some (Exc KeyError ''missing'' None),
          \<lparr>cwd = ''/tmp'', dirs = {''/work'', ''/tmp''}, other = 1\<rparr>)
   \<and> cd ''/tmp'' raising_body workdir_state
       = (Some (Exc KeyError ''missing'' None),
          \<lparr>cwd = ''/work'', dirs = {''/work'', ''/tmp''}, other = 1\<rparr>)"
proof -
  have entry: "cwd workdir_state \<in> dirs workdir_state" "''/tmp'' \<in> dirs workdir_state"
    by (simp_all add: workdir_state_def)
  have body: "raising_body (workdir_state\<lparr>cwd := ''/tmp''\<rparr>)
      = (Some (Exc KeyError ''missing'' None),
         \<lparr>cwd = ''/tmp'', dirs = {''/work'', ''/tmp''}, other = 1\<rparr>)"
    by (simp add: raising_body_def workdir_state_def)
  from cd_restores_cwd
    [where s = workdir_state and target = "''/tmp''" and body = raising_body, OF entry body]
    entry body
  show ?thesis
    by (simp add: workdir_state_def)
qed

text \<open>
  Claim C9 as stated fails: a body that removes the directory of entry leaves the
  process in the target directory.
\<close>

theorem cd_not_restored_when_entry_directory_removed:
  "cd ''/tmp'' removing_body workdir_state
     = (Some (Exc OSError ''chdir: no such file or directory'' None),
        \<lparr>cwd = ''/tmp'', dirs = {''/tmp''}, other = 0\<rparr>)
   \<and> cwd (snd (cd ''/tmp'' removing_body workdir_state)) \<noteq> cwd workdir_state"
  by (simp add: cd_def getcwd_def chdir_def removing_body_def workdir_state_def)

section \<open>Properties of the tree engine\<close>

subsection \<open>Merge markers\<close>

lemma key_marker_plus: "key_marker (key @ ''+'') = (key, Append)"
  by (simp add: key_marker_def)

lemma key_marker_minus: "key_marker (key @ ''-'') = (key, Remove)"
  by (simp add: key_marker_def)

lemma merge_append: "merge parent (xs @ ys) = merge (merge parent xs) ys"
  by (induction xs arbitrary: parent) auto

lemma merge_other_keys:
  assumes "\<forall>(k, v) \<in> set child. fst (key_marker k) \<noteq> key"
  shows "map_of (merge parent child) key = map_of parent key"
  using assms
proof (induction child arbitrary: parent)
  case Nil
  then show ?case by simp
next
  case (Cons entry rest)
  obtain k v where entry: "entry = (k, v)" by (cases entry)
  obtain key' m where km: "key_marker k = (key', m)" by (cases "key_marker k")
  from Cons.prems entry km have ne: "key' \<noteq> key" by simp
  from Cons.prems have rest: "\<forall>(k, v) \<in> set rest. fst (key_marker k) \<noteq> key" by simp
  show ?case
    unfolding entry merge.simps Cons.IH [OF rest] km
    using ne
    by (simp add: update_conv' delete_conv' split: option.splits DataType.splits)
qed

lemma merge_append_marker:
  assumes "map_of parent key = Some (DList ps)"
    and "\<forall>(k, v) \<in> set rest. fst (key_marker k) \<noteq> key"
  shows "map_of (merge parent ((key @ ''+'', DList cs) # rest)) key = Some (DList (ps @ cs))"
  using assms(1)
  by (simp add: merge_other_keys [OF assms(2)] key_marker_plus update_conv')

lemma merge_remove_marker:
  assumes "map_of parent key = Some (DList ps)"
    and "\<forall>(k, v) \<in> set rest. fst (key_marker k) \<noteq> key"
  shows "map_of (merge parent ((key @ ''-'', v) # rest)) key
           = Some (DList (filter (\<lambda>x. x \<notin> set (listed_elements v)) ps))"
  using assms(1)
  by (simp add: merge_other_keys [OF assms(2)] key_marker_minus update_conv')

lemma filter_singleton_split:
  assumes "filter P xs = [x]"
  shows "\<exists>before rest. xs = before @ x # rest
           \<and> (\<forall>y \<in> set before. \<not> P y) \<and> (\<forall>y \<in> set rest. \<not> P y)"
proof -
  from assms obtain before rest where "xs = before @ x # rest"
    and "\<forall>y \<in> set before. \<not> P y" and "filter P rest = []"
    by (auto simp: filter_eq_Cons_iff)
  then show ?thesis
    by (auto simp: filter_empty_conv)
qed

lemma merge_only_entry:
  assumes "filter (\<lambda>entry. fst (key_marker (fst entry)) = key) child = [(k, v)]"
  shows "\<exists>before rest. child = before @ (k, v) # rest
           \<and> (\<forall>(k', v') \<in> set before. fst (key_marker k') \<noteq> key)
           \<and> (\<forall>(k', v') \<in> set rest. fst (key_marker k') \<noteq> key)"
  using filter_singleton_split [OF assms] by (auto simp: case_prod_unfold)

text \<open>
  Claim C1, as amended. Let the parent hold a sequence under \<open>key\<close> and let exactly one
  entry of the child name \<open>key\<close> once the marker suffixes are stripped. When that entry
  is \<open>key+\<close> with a sequence, the merge holds under \<open>key\<close> the parent's sequence followed
  by the child's; when it is \<open>key-\<close>, the merge holds under \<open>key\<close> the parent's sequence
  without the elements the child lists. In particular the parent list \<^verbatim>\<open>[a, b]\<close> with
  the child \<^verbatim>\<open>tag+: [c]\<close> resolves to \<^verbatim>\<open>[a, b, c]\<close>, and the parent list
  \<^verbatim>\<open>[a, b, c]\<close> with the child \<^verbatim>\<open>tag-: [b]\<close> resolves to \<^verbatim>\<open>[a, c]\<close>, each stored under
  \<^verbatim>\<open>tag\<close>.
\<close>

theorem merge_markers:
  assumes parent: "map_of parent key = Some (DList ps)"
  shows "(filter (\<lambda>entry. fst (key_marker (fst entry)) = key) child
            = [(key @ ''+'', DList cs)] \<longrightarrow>
            map_of (merge parent child) key = Some (DList (ps @ cs)))
       \<and> (filter (\<lambda>entry. fst (key_marker (fst entry)) = key) child
            = [(key @ ''-'', v)] \<longrightarrow>
            map_of (merge parent child) key
              = Some (DList (filter (\<lambda>x. x \<notin> set (listed_elements v)) ps)))
       \<and> merge [(''tag'', DList [DStr ''a'', DStr ''b''])] [(''tag+'', DList [DStr ''c''])]
            = [(''tag'', DList [DStr ''a'', DStr ''b'', DStr ''c''])]
       \<and> merge [(''tag'', DList [DStr ''a'', DStr ''b'', DStr ''c''])]
               [(''tag-'', DList [DStr ''b''])]
            = [(''tag'', DList [DStr ''a'', DStr ''c''])]"
proof (intro conjI impI)
  assume "filter (\<lambda>entry. fst (key_marker (fst entry)) = key) child
      = [(key @ ''+'', DList cs)]"
  from merge_only_entry [OF this] obtain before rest where
    split: "child = before @ (key @ ''+'', DList cs) # rest"
    and others: "\<forall>(k', v') \<in> set before. fst (key_marker k') \<noteq> key"
      "\<forall>(k', v') \<in> set rest. fst (key_marker k') \<noteq> key"
    by blast
  have "map_of (merge parent before) key = Some (DList ps)"
    using merge_other_keys [OF others(1)] parent by simp
  then show "map_of (merge parent child) key = Some (DList (ps @ cs))"
    unfolding split merge_append by (rule merge_append_marker) (rule others(2))
next
  assume "filter (\<lambda>entry. fst (key_marker (fst entry)) = key) child = [(key @ ''-'', v)]"
  from merge_only_entry [OF this] obtain before rest where
    split: "child = before @ (key @ ''-'', v) # rest"
    and others: "\<forall>(k', v') \<in> set before. fst (key_marker k') \<noteq> key"
      "\<forall>(k', v') \<in> set rest. fst (key_marker k') \<noteq> key"
    by blast
  have "map_of (merge parent before) key = Some (DList ps)"
    using merge_other_keys [OF others(1)] parent by simp
  then show "map_of (merge parent child) key
      = Some (DList (filter (\<lambda>x. x \<notin> set (listed_elements v)) ps))"
    unfolding split merge_append by (rule merge_remove_marker) (rule others(2))
next
  show "merge [(''tag'', DList [DStr ''a'', DStr ''b''])] [(''tag+'', DList [DStr ''c''])]
      = [(''tag'', DList [DStr ''a'', DStr ''b'', DStr ''c''])]"
    by (simp add: key_marker_def)
next
  show "merge [(''tag'', DList [DStr ''a'', DStr ''b'', DStr ''c''])]
        [(''tag-'', DList [DStr ''b''])]
      = [(''tag'', DList [DStr ''a'', DStr ''c''])]"
    by (simp add: key_marker_def)
qed

text \<open>
  The theorem at a parent with the keys \<^verbatim>\<open>tag\<close> and \<^verbatim>\<open>x\<close> and children that name
  \<^verbatim>\<open>tag\<close> once and also override \<^verbatim>\<open>x\<close>, one of them twice.
\<close>

theorem merge_markers_witness:
  "map_of [(''tag'', DList [DStr ''a'', DStr ''b'']), (''x'', DInt 1)] ''tag''
     = Some (DList [DStr ''a'', DStr ''b''])
   \<and> filter (\<lambda>entry. fst (key_marker (fst entry)) = ''tag'')
        [(''x'', DInt 2), (''tag+'', DList [DStr ''c'']), (''x+'', DInt 3)]
     = [(''tag+'', DList [DStr ''c''])]
   \<and> map_of (merge [(''tag'', DList [DStr ''a'', DStr ''b'']), (''x'', DInt 1)]
              [(''x'', DInt 2), (''tag+'', DList [DStr ''c'']), (''x+'', DInt 3)]) ''tag''
     = Some (DList [DStr ''a'', DStr ''b'', DStr ''c''])
   \<and> filter (\<lambda>entry. fst (key_marker (fst entry)) = ''tag'')
        [(''tag-'', DList [DStr ''b'']), (''x'', DInt 2)]
     = [(''tag-'', DList [DStr ''b''])]
   \<and> map_of (merge [(''tag'', DList [DStr ''a'', DStr ''b'']), (''x'', DInt 1)]
              [(''tag-'', DList [DStr ''b'']), (''x'', DInt 2)]) ''tag''
     = Some (DList [DStr ''a''])"
proof -
  let ?parent = "[(''tag'', DList [DStr ''a'', DStr ''b'']), (''x'', DInt 1)]"
  have parent: "map_of ?parent ''tag'' = Some (DList [DStr ''a'', DStr ''b''])"
    by simp
  have only1: "filter (\<lambda>entry. fst (key_marker (fst entry)) = ''tag'')
      [(''x'', DInt 2), (''tag+'', DList [DStr ''c'']), (''x+'', DInt 3)]
      = [(''tag+'', DList [DStr ''c''])]"
    by (simp add: key_marker_def)
  have only2: "filter (\<lambda>entry. fst (key_marker (fst entry)) = ''tag'')
      [(''tag-'', DList [DStr ''b'']), (''x'', DInt 2)]
      = [(''tag-'', DList [DStr ''b''])]"
    by (simp add: key_marker_def)
  from merge_markers [OF parent,
      where child = "[(''x'', DInt 2), (''tag+'', DList [DStr ''c'']), (''x+'', DInt 3)]"
        and cs = "[DStr ''c'']" and v = DNone] only1
  have "map_of (merge ?parent
        [(''x'', DInt 2), (''tag+'', DList [DStr ''c'']), (''x+'', DInt 3)]) ''tag''
      = Some (DList [DStr ''a'', DStr ''b'', DStr ''c''])"
    by simp
  moreover from merge_markers [OF parent,
      where child = "[(''tag-'', DList [DStr ''b'']), (''x'', DInt 2)]"
        and cs = "[]" and v = "DList [DStr ''b'']"] only2
  have "map_of (merge ?parent [(''tag-'', DList [DStr ''b'']), (''x'', DInt 2)]) ''tag''
      = Some (DList [DStr ''a''])"
    by simp
  ultimately show ?thesis using parent only1 only2 by blast
qed

text \<open>
  Claim C1 as stated fails: a child that holds both \<^verbatim>\<open>tag: [x]\<close> and \<^verbatim>\<open>tag+: [c]\<close>
  has the key \<^verbatim>\<open>tag\<close> in common with the parent list \<^verbatim>\<open>[a, b]\<close> and carries the
  append marker with a sequence, but the merge is \<^verbatim>\<open>[x, c]\<close>, not \<^verbatim>\<open>[a, b, c]\<close>.
\<close>

theorem merge_marker_after_plain_entry:
  "map_of [(''tag'', DList [DStr ''a'', DStr ''b''])] ''tag''
     = Some (DList [DStr ''a'', DStr ''b''])
   \<and> key_marker ''tag+'' = (''tag'', Append)
   \<and> merge [(''tag'', DList [DStr ''a'', DStr ''b''])]
        [(''tag'', DList [DStr ''x'']), (''tag+'', DList [DStr ''c''])]
     = [(''tag'', DList [DStr ''x'', DStr ''c''])]
   \<and> DList [DStr ''x'', DStr ''c''] \<noteq> DList [DStr ''a'', DStr ''b'', DStr ''c'']"
  by (simp add: key_marker_def)

subsection \<open>Selection\<close>

lemma select_from_preorder:
  "select_from eng crit t = filter (selected eng crit) (preorder t)"
proof (induction t)
  case (Node p d s cs)
  have "concat (map (select_from eng crit) cs)
      = concat (map (\<lambda>c. filter (selected eng crit) (preorder c)) cs)"
    using Node.IH by (induction cs) auto
  then show ?case by (simp add: filter_concat comp_def)
qed

text \<open>
  Claim C3, as amended. When the criteria are valid, a node is in the selected
  sequence if and only if it is a node of the tree, it is a candidate (a leaf, or any
  node when \<^verbatim>\<open>whole\<close> is set), and it passes the five criterion kinds (keys, names,
  sources, filters, conditions) together. Within the filters kind every filter
  expression must pass, and an empty criterion of any kind is true of every node.
\<close>

theorem select_conjunction:
  assumes "select eng tree crit = Inr result"
  shows "(n \<in> set result \<longleftrightarrow>
            n \<in> set (preorder tree) \<and> (whole crit \<or> is_leaf n)
            \<and> pass_keys (keys crit) n
            \<and> pass_names eng (names crit) n
            \<and> pass_sources (crit_sources crit) n
            \<and> pass_filters eng (filters crit) n
            \<and> pass_conditions eng (conditions crit) n)
       \<and> (pass_filters eng (f # fs) n \<longleftrightarrow> pass_filter eng f n \<and> pass_filters eng fs n)
       \<and> pass_keys [] n \<and> pass_names eng [] n \<and> pass_sources [] n
       \<and> pass_filters eng [] n \<and> pass_conditions eng [] n"
proof -
  from assms have "result = filter (selected eng crit) (preorder tree)"
    by (simp add: select_def select_from_preorder split: if_splits)
  then have "n \<in> set result \<longleftrightarrow> n \<in> set (preorder tree) \<and> selected eng crit n"
    by simp
  then show ?thesis
    by (simp add: selected_def pass_filters_def pass_keys_def pass_names_def pass_sources_def
        pass_conditions_def)
qed


lemma split_filter_Tier1: "split_filter ''tags:Tier1'' = Some (''tags'', ''Tier1'')"
  by (simp add: split_filter_def)

lemma split_filter_TierSecurity:
  "split_filter ''tags:TierSecurity'' = Some (''tags'', ''TierSecurity'')"
  by (simp add: split_filter_def)

lemma select_tier_filters: "select demo_engine wget_tree tier_filters = Inr [download_test]"
  by (simp add: select_def valid_criteria_def tier_filters_def no_criteria_def demo_engine_def
      wget_tree_def download_test_def recursion_deep_def selected_def is_leaf_def
      pass_keys_def pass_names_def pass_sources_def pass_filters_def pass_filter_def
      pass_conditions_def split_filter_Tier1 split_filter_TierSecurity)

text \<open>
  The theorem at the filters \<^verbatim>\<open>tags:Tier1\<close> and \<^verbatim>\<open>tags:TierSecurity\<close>: the node with
  both tags is selected, the node that lacks the second tag is not.
\<close>

theorem select_conjunction_witness:
  "select demo_engine wget_tree tier_filters = Inr [download_test]
   \<and> download_test \<in> set (preorder wget_tree) \<and> is_leaf download_test
   \<and> pass_filter demo_engine ''tags:Tier1'' download_test
   \<and> pass_filter demo_engine ''tags:TierSecurity'' download_test
   \<and> pass_filter demo_engine ''tags:Tier1'' recursion_deep
   \<and> \<not> pass_filter demo_engine ''tags:TierSecurity'' recursion_deep
   \<and> recursion_deep \<notin> set [download_test]"
proof -
  note C = select_conjunction [OF select_tier_filters]
  from C [where n = download_test and f = "[]" and fs = "[]"] have node: "download_test \<in> set (preorder wget_tree)"
    by simp
  from C [where n = download_test and f = "[]" and fs = "[]"] have leaf: "is_leaf download_test"
    by (simp add: tier_filters_def no_criteria_def)
  from C [where n = download_test and f = "[]" and fs = "[]"] have
    both: "pass_filters demo_engine [''tags:Tier1'', ''tags:TierSecurity''] download_test"
    by (simp add: tier_filters_def no_criteria_def)
  from C [where n = download_test and f = "''tags:Tier1''" and fs = "[''tags:TierSecurity'']"]
    both have
    first: "pass_filter demo_engine ''tags:Tier1'' download_test"
    and rest: "pass_filters demo_engine [''tags:TierSecurity''] download_test"
    by simp_all
  from C [where n = download_test and f = "''tags:TierSecurity''" and fs = "[]"] rest have
    second: "pass_filter demo_engine ''tags:TierSecurity'' download_test"
    by simp
  note node leaf first second
  moreover have "pass_filter demo_engine ''tags:Tier1'' recursion_deep"
    "\<not> pass_filter demo_engine ''tags:TierSecurity'' recursion_deep"
    "recursion_deep \<notin> set [download_test]"
    by (simp_all add: pass_filter_def split_filter_Tier1 split_filter_TierSecurity
        demo_engine_def recursion_deep_def download_test_def)
  ultimately show ?thesis using select_tier_filters by blast
qed

text \<open>
  Claim C3 as stated fails: with no criterion at all the root of the tree passes the
  five kinds, but it has children and \<^verbatim>\<open>whole\<close> is not set, so it is not selected.
\<close>

theorem select_skips_inner_node:
  "select demo_engine wget_tree no_criteria = Inr [download_test, recursion_deep]
   \<and> wget_tree \<in> set (preorder wget_tree)
   \<and> pass_keys (keys no_criteria) wget_tree
   \<and> pass_names demo_engine (names no_criteria) wget_tree
   \<and> pass_sources (crit_sources no_criteria) wget_tree
   \<and> pass_filters demo_engine (filters no_criteria) wget_tree
   \<and> pass_conditions demo_engine (conditions no_criteria) wget_tree
   \<and> wget_tree \<notin> set [download_test, recursion_deep]"
  by (simp add: select_def valid_criteria_def no_criteria_def demo_engine_def
      wget_tree_def download_test_def recursion_deep_def selected_def is_leaf_def
      pass_keys_def pass_names_def pass_sources_def pass_filters_def pass_conditions_def)

text \<open>
  Claim C2. Let the criteria be valid, so that selection starts, and let a condition
  of the criteria raise an error when evaluated on the data of a node. Then that
  condition is false for the node, the selection returns without an error, the node
  is not in it, and every other node is in it exactly when it is a selected node of
  the tree on its own data. The condition \<^verbatim>\<open>execute["missing"] == "x"\<close> raises on
  data without the key \<^verbatim>\<open>execute\<close>.
\<close>

theorem condition_error_excludes_node:
  assumes valid: "valid_criteria eng crit"
    and c: "c \<in> set (conditions crit)" "parse_condition eng c = Some e"
    and err: "eval_expr (data_of n) e = Inl err"
  shows "\<not> pass_condition eng c n
       \<and> (\<exists>result. select eng tree crit = Inr result \<and> n \<notin> set result
            \<and> (\<forall>m. m \<in> set result \<longleftrightarrow> m \<in> set (preorder tree) \<and> selected eng crit m))
       \<and> (map_of d ''execute'' = None \<longrightarrow>
            eval_expr d (Equal (Subscript (Name ''execute'') (Const (DStr ''missing'')))
                           (Const (DStr ''x'')))
              = Inl (Exc NameError ''execute'' None))"
proof -
  from c(2) err have fails: "\<not> pass_condition eng c n"
    by (simp add: pass_condition_def)
  with c(1) have "\<not> selected eng crit n"
    by (auto simp: selected_def pass_conditions_def)
  moreover from valid have "select eng tree crit = Inr (filter (selected eng crit) (preorder tree))"
    by (simp add: select_def select_from_preorder)
  ultimately show ?thesis using fails by simp
qed

text \<open>The theorem at the condition on the missing key and a node without \<^verbatim>\<open>execute\<close>.\<close>

theorem condition_error_excludes_node_witness:
  "valid_criteria demo_engine missing_key
   \<and> missing_key_condition \<in> set (conditions missing_key)
   \<and> parse_condition demo_engine missing_key_condition
       = Some (Equal (Subscript (Name ''execute'') (Const (DStr ''missing'')))
                 (Const (DStr ''x'')))
   \<and> eval_expr (data_of download_test)
        (Equal (Subscript (Name ''execute'') (Const (DStr ''missing''))) (Const (DStr ''x'')))
       = Inl (Exc NameError ''execute'' None)
   \<and> \<not> pass_condition demo_engine missing_key_condition download_test
   \<and> (\<exists>result. select demo_engine wget_tree missing_key = Inr result
         \<and> download_test \<notin> set result)"
proof -
  have valid: "valid_criteria demo_engine missing_key"
    by (simp add: valid_criteria_def missing_key_def no_criteria_def demo_engine_def)
  have c: "missing_key_condition \<in> set (conditions missing_key)"
    by (simp add: missing_key_def no_criteria_def)
  have parse: "parse_condition demo_engine missing_key_condition
      = Some (Equal (Subscript (Name ''execute'') (Const (DStr ''missing'')))
                (Const (DStr ''x'')))"
    by (simp add: demo_engine_def)
  have err: "eval_expr (data_of download_test)
      (Equal (Subscript (Name ''execute'') (Const (DStr ''missing''))) (Const (DStr ''x'')))
      = Inl (Exc NameError ''execute'' None)"
    by (simp add: download_test_def)
  from condition_error_excludes_node [OF valid c parse err, of wget_tree]
  have "\<not> pass_condition demo_engine missing_key_condition download_test"
    "\<exists>result. select demo_engine wget_tree missing_key = Inr result
       \<and> download_test \<notin> set result"
    by blast+
  with valid c parse err show ?thesis by blast
qed

subsection \<open>Initialization\<close>

lemma parse_version_1: "parse_version ''1'' = Some 1"
  by (simp add: parse_version_def digit_value_def)

lemma Tree_init_marker_mono:
  "Tree_init fs p = Inr (r, fs') \<Longrightarrow> marker fs q \<noteq> None \<Longrightarrow> marker fs' q \<noteq> None"
  by (auto simp: Tree_init_def split: if_splits)

lemma Tree_init_class:
  "Tree_init fs p = Inl e \<Longrightarrow> exc_cls e = FileError"
  by (auto simp: Tree_init_def split: if_splits)

lemma init_already_initialized:
  assumes "\<exists>p \<in> set ps. marker fs p \<noteq> None"
  shows "\<exists>e fs' out. init Tree_init ps (fs, echoed) = (Some e, fs', out) \<and> exc_cls e = FileError"
  using assms
proof (induction ps arbitrary: fs echoed)
  case Nil
  then show ?case by simp
next
  case (Cons p ps)
  show ?case
  proof (cases "Tree_init fs p")
    case (Inl e)
    then show ?thesis by (simp add: Tree_init_class)
  next
    case (Inr res)
    obtain r fs' where res: "res = (r, fs')" by (cases res)
    from Inr res have "marker fs p = None"
      by (auto simp: Tree_init_def split: if_splits)
    with Cons.prems obtain q where "q \<in> set ps" "marker fs q \<noteq> None" by auto
    with Inr res have "\<exists>q \<in> set ps. marker fs' q \<noteq> None"
      using Tree_init_marker_mono by blast
    from Cons.IH [OF this] Inr res show ?thesis by simp
  qed
qed

lemma init_fresh:
  assumes "distinct ps" and "\<forall>p \<in> set ps. marker fs p = None \<and> p \<in> writable fs"
  shows "\<exists>fs' out. init Tree_init ps (fs, echoed) = (None, fs', out)
           \<and> (\<forall>p \<in> set ps. marker fs' p = Some ''1'')
           \<and> (\<forall>q. q \<notin> set ps \<longrightarrow> marker fs' q = marker fs q)
           \<and> writable fs' = writable fs
           \<and> length out = length echoed + length ps"
  using assms
proof (induction ps arbitrary: fs echoed)
  case Nil
  then show ?case by simp
next
  case (Cons p ps)
  let ?fs1 = "fs\<lparr>marker := (marker fs)(p \<mapsto> ''1'')\<rparr>"
  from Cons.prems have step: "Tree_init fs p = Inr (p, ?fs1)"
    by (simp add: Tree_init_def)
  from Cons.prems have "distinct ps" and "\<forall>q \<in> set ps. marker ?fs1 q = None \<and> q \<in> writable ?fs1"
    by auto
  from Cons.IH [OF this] obtain fs' out where
    run: "init Tree_init ps (?fs1, echoed @ [''Metadata tree '' @ [CHR 0x27] @ p @ [CHR 0x27]
             @ '' successfully initialized.'']) = (None, fs', out)"
    and marks: "\<forall>q \<in> set ps. marker fs' q = Some ''1''"
    and frame: "\<forall>q. q \<notin> set ps \<longrightarrow> marker fs' q = marker ?fs1 q"
    and wr: "writable fs' = writable ?fs1"
    and len: "length out = length (echoed @ [''Metadata tree '' @ [CHR 0x27] @ p @ [CHR 0x27]
             @ '' successfully initialized.'']) + length ps"
    by blast
  from Cons.prems have "p \<notin> set ps" by simp
  with frame have "marker fs' p = Some ''1''" by simp
  with step run marks frame wr len show ?case by auto
qed


lemma load_version_corrupted:
  assumes "marker fs p = None \<or> (\<exists>c. marker fs p = Some c \<and> parse_version c = None)"
  shows "\<exists>e. load_version fs p = Inl e \<and> exc_cls e = FormatError"
  using assms by (auto simp: load_version_def)

text \<open>
  Claim C6. Initializing a writable directory without a version marker succeeds and
  writes the marker with content 1, which loads as version 1; initializing a path
  that holds the marker fails with \<^verbatim>\<open>FileError\<close>, as initializing the same
  directory again does. The \<^verbatim>\<open>init\<close> command does this for each supplied path in
  turn: distinct fresh paths are all initialized with one line echoed for each, and a
  path that is initialized already makes the command fail with \<^verbatim>\<open>FileError\<close>. As
  long as the marker is missing or not a number, loading the root fails with
  \<^verbatim>\<open>FormatError\<close>.
\<close>

theorem init_and_version_marker:
  "(marker fs p = None \<and> p \<in> writable fs \<longrightarrow>
      (\<exists>fs'. Tree_init fs p = Inr (p, fs') \<and> marker fs' p = Some ''1''
         \<and> load_version fs' p = Inr 1
         \<and> (\<exists>e. Tree_init fs' p = Inl e \<and> exc_cls e = FileError)))
   \<and> (marker fs p \<noteq> None \<longrightarrow> (\<exists>e. Tree_init fs p = Inl e \<and> exc_cls e = FileError))
   \<and> (distinct ps \<and> (\<forall>q \<in> set ps. marker fs q = None \<and> q \<in> writable fs) \<longrightarrow>
        (\<exists>fs' echoed. init Tree_init ps (fs, []) = (None, fs', echoed)
           \<and> (\<forall>q \<in> set ps. marker fs' q = Some ''1'') \<and> length echoed = length ps))
   \<and> ((\<exists>q \<in> set ps. marker fs q \<noteq> None) \<longrightarrow>
        (\<exists>e fs' echoed. init Tree_init ps (fs, []) = (Some e, fs', echoed)
           \<and> exc_cls e = FileError))
   \<and> (marker fs p = None \<or> (\<exists>c. marker fs p = Some c \<and> parse_version c = None) \<longrightarrow>
        (\<exists>e. load_version fs p = Inl e \<and> exc_cls e = FormatError))"
proof (intro conjI impI)
  assume "marker fs p = None \<and> p \<in> writable fs"
  then show "\<exists>fs'. Tree_init fs p = Inr (p, fs') \<and> marker fs' p = Some ''1''
      \<and> load_version fs' p = Inr 1
      \<and> (\<exists>e. Tree_init fs' p = Inl e \<and> exc_cls e = FileError)"
    by (simp add: Tree_init_def load_version_def parse_version_1)
next
  assume "marker fs p \<noteq> None"
  then show "\<exists>e. Tree_init fs p = Inl e \<and> exc_cls e = FileError"
    by (simp add: Tree_init_def)
next
  assume "distinct ps \<and> (\<forall>q \<in> set ps. marker fs q = None \<and> q \<in> writable fs)"
  then have "distinct ps" "\<forall>q \<in> set ps. marker fs q = None \<and> q \<in> writable fs"
    by simp_all
  from init_fresh [OF this, of "[]"]
  show "\<exists>fs' echoed. init Tree_init ps (fs, []) = (None, fs', echoed)
      \<and> (\<forall>q \<in> set ps. marker fs' q = Some ''1'') \<and> length echoed = length ps"
    by auto
next
  assume "\<exists>q \<in> set ps. marker fs q \<noteq> None"
  then show "\<exists>e fs' echoed. init Tree_init ps (fs, []) = (Some e, fs', echoed)
      \<and> exc_cls e = FileError"
    by (rule init_already_initialized)
next
  assume "marker fs p = None \<or> (\<exists>c. marker fs p = Some c \<and> parse_version c = None)"
  then show "\<exists>e. load_version fs p = Inl e \<and> exc_cls e = FormatError"
    by (rule load_version_corrupted)
qed

text \<open>
  The theorem at a fresh directory: it is initialized once, a second \<^verbatim>\<open>init\<close> fails,
  and loading fails when the marker holds \<^verbatim>\<open>bad\<close> or is missing.
\<close>

theorem init_and_version_marker_witness:
  "marker fresh_fs ''/repo'' = None \<and> ''/repo'' \<in> writable fresh_fs
   \<and> (\<exists>fs'. Tree_init fresh_fs ''/repo'' = Inr (''/repo'', fs')
         \<and> marker fs' ''/repo'' = Some ''1'' \<and> load_version fs' ''/repo'' = Inr 1)
   \<and> (\<exists>fs' echoed. init Tree_init [''/repo''] (fresh_fs, []) = (None, fs', echoed)
         \<and> length echoed = 1)
   \<and> marker (fresh_fs\<lparr>marker := [''/repo'' \<mapsto> ''1'']\<rparr>) ''/repo'' \<noteq> None
   \<and> (\<exists>e fs' echoed.
         init Tree_init [''/repo''] (fresh_fs\<lparr>marker := [''/repo'' \<mapsto> ''1'']\<rparr>, [])
           = (Some e, fs', echoed) \<and> exc_cls e = FileError)
   \<and> parse_version ''bad'' = None
   \<and> (\<exists>e. load_version (fresh_fs\<lparr>marker := [''/repo'' \<mapsto> ''bad'']\<rparr>) ''/repo'' = Inl e
         \<and> exc_cls e = FormatError)
   \<and> (\<exists>e. load_version fresh_fs ''/repo'' = Inl e \<and> exc_cls e = FormatError)"
proof -
  have fresh: "marker fresh_fs ''/repo'' = None \<and> ''/repo'' \<in> writable fresh_fs"
    by (simp add: fresh_fs_def)
  have fresh_list: "distinct [''/repo'']
      \<and> (\<forall>q \<in> set [''/repo'']. marker fresh_fs q = None \<and> q \<in> writable fresh_fs)"
    by (simp add: fresh_fs_def)
  have again: "\<exists>q \<in> set [''/repo''].
      marker (fresh_fs\<lparr>marker := [''/repo'' \<mapsto> ''1'']\<rparr>) q \<noteq> None"
    by simp
  have bad: "parse_version ''bad'' = None"
    by (simp add: parse_version_def digit_value_def)
  then have corrupted: "marker (fresh_fs\<lparr>marker := [''/repo'' \<mapsto> ''bad'']\<rparr>) ''/repo'' = None
      \<or> (\<exists>c. marker (fresh_fs\<lparr>marker := [''/repo'' \<mapsto> ''bad'']\<rparr>) ''/repo'' = Some c
            \<and> parse_version c = None)"
    by simp
  have missing: "marker fresh_fs ''/repo'' = None
      \<or> (\<exists>c. marker fresh_fs ''/repo'' = Some c \<and> parse_version c = None)"
    by (simp add: fresh_fs_def)
  from init_and_version_marker [of fresh_fs "''/repo''" "[''/repo'']"] fresh fresh_list
  have "\<exists>fs'. Tree_init fresh_fs ''/repo'' = Inr (''/repo'', fs')
      \<and> marker fs' ''/repo'' = Some ''1'' \<and> load_version fs' ''/repo'' = Inr 1"
    and "\<exists>fs' echoed. init Tree_init [''/repo''] (fresh_fs, []) = (None, fs', echoed)
      \<and> length echoed = 1"
    by auto
  moreover from init_and_version_marker
    [of "fresh_fs\<lparr>marker := [''/repo'' \<mapsto> ''1'']\<rparr>" "''/repo''" "[''/repo'']"] again
  have "\<exists>e fs' echoed.
      init Tree_init [''/repo''] (fresh_fs\<lparr>marker := [''/repo'' \<mapsto> ''1'']\<rparr>, [])
        = (Some e, fs', echoed) \<and> exc_cls e = FileError"
    by blast
  moreover from init_and_version_marker
    [of "fresh_fs\<lparr>marker := [''/repo'' \<mapsto> ''bad'']\<rparr>" "''/repo''"] corrupted
  have "\<exists>e. load_version (fresh_fs\<lparr>marker := [''/repo'' \<mapsto> ''bad'']\<rparr>) ''/repo'' = Inl e
      \<and> exc_cls e = FormatError"
    by blast
  moreover from init_and_version_marker [of fresh_fs "''/repo''"] missing
  have "\<exists>e. load_version fresh_fs ''/repo'' = Inl e \<and> exc_cls e = FormatError"
    by blast
  moreover have "marker (fresh_fs\<lparr>marker := [''/repo'' \<mapsto> ''1'']\<rparr>) ''/repo'' \<noteq> None"
    by simp
  ultimately show ?thesis using fresh bad by blast
qed

end
